theory Spec2Isabelle
  imports Complex_Main
begin

section \<open>Numbers, vectors and arrays of Hydro.cc\<close>

text \<open>
  The C++ type \<open>double\<close> is read as \<open>real\<close>: every operation of the source is the exact
  operation on real numbers. Rounding, overflow, infinities and NaN are outside this model;
  where the source divides by a value it does not bound away from zero, the theorem about
  that quotient says so in a hypothesis. The C++ type \<open>int\<close> of indices is read as \<open>int\<close>; no
  index arithmetic of the source other than \<open>++\<close> below a bound occurs.

  A raw array (\<open>double*\<close>, \<open>double2*\<close>, \<open>int*\<close>) is a function from the index to the
  element: it has no length of its own, as in the source. The arrays a function writes and
  the arrays it reads are different fields of the solver, so they never alias.
\<close>

type_synonym double = real

definition fuzz :: double where
  \<comment> \<open>\<open>const double fuzz = 1.e-99;\<close>\<close>
  "fuzz = 1 / 10 ^ 99"

definition dt_sentinel :: double where
  \<comment> \<open>the literal \<open>1.e99\<close> of calcDtCourant and calcDtHydro\<close>
  "dt_sentinel = 10 ^ 99"

definition dvov_floor :: double where
  \<comment> \<open>the literal \<open>1.e-99\<close> that \<open>dvovmax\<close> starts from in calcDtVolume\<close>
  "dvov_floor = 1 / 10 ^ 99"

definition double_max :: double where
  \<comment> \<open>\<open>std::numeric_limits<double>::max()\<close>, the largest finite binary64 value\<close>
  "double_max = (2 ^ 53 - 1) * 2 ^ 971"

text \<open>
  Modelled from the spec: the vector type \<open>double2\<close> and its operators are declared in
  Vec2.hh, which is not among the sources. The spec uses them componentwise
  (\<open>v * (x/r, y/r)\<close>, \<open>dot\<close>, \<open>0.5*|velocity|^2\<close>); the selectors \<open>d2x\<close> and \<open>d2y\<close> stand
  for the members \<open>.x\<close> and \<open>.y\<close>.
\<close>

datatype double2 = Double2 (d2x: double) (d2y: double)

instantiation double2 :: "{plus, minus, uminus}"
begin

definition plus_double2 :: "double2 \<Rightarrow> double2 \<Rightarrow> double2" where
  "plus_double2 a b = Double2 (d2x a + d2x b) (d2y a + d2y b)"

definition minus_double2 :: "double2 \<Rightarrow> double2 \<Rightarrow> double2" where
  "minus_double2 a b = Double2 (d2x a - d2x b) (d2y a - d2y b)"

definition uminus_double2 :: "double2 \<Rightarrow> double2" where
  "uminus_double2 a = Double2 (- d2x a) (- d2y a)"

instance ..

end

definition scale :: "double \<Rightarrow> double2 \<Rightarrow> double2" where
  \<comment> \<open>\<open>double * double2\<close>\<close>
  "scale r v = Double2 (r * d2x v) (r * d2y v)"

definition divide_d2 :: "double2 \<Rightarrow> double \<Rightarrow> double2" where
  \<comment> \<open>\<open>double2 / double\<close>\<close>
  "divide_d2 v r = Double2 (d2x v / r) (d2y v / r)"

definition dot :: "double2 \<Rightarrow> double2 \<Rightarrow> double" where
  "dot a b = d2x a * d2x b + d2y a * d2y b"

definition length_d2 :: "double2 \<Rightarrow> double" where
  \<comment> \<open>\<open>length(v)\<close>, the Euclidean norm\<close>
  "length_d2 v = sqrt (d2x v * d2x v + d2y v * d2y v)"

subsection \<open>The counting loop\<close>

text \<open>
  \<open>for (int i = first; i < last; ++i) body\<close>, with the state the body changes passed
  along. The loop ends because \<open>last - i\<close> decreases.
\<close>

function for_loop :: "int \<Rightarrow> int \<Rightarrow> (int \<Rightarrow> 's \<Rightarrow> 's) \<Rightarrow> 's \<Rightarrow> 's" where
  "for_loop i n body s = (if i < n then for_loop (i + 1) n body (body i s) else s)"
  by pat_completeness auto
termination
  by (relation "measure (\<lambda>(i, n, body, s). nat (n - i))") auto

declare for_loop.simps [simp del]

section \<open>The mesh and the solver state\<close>

text \<open>
  The members of \<open>LocalMesh\<close> that Hydro.cc reads. LocalMesh.hh is not among the sources,
  so the connectivity maps and the methods \<open>mapSideToSidePrev\<close>, \<open>mapSideToPt2\<close>,
  \<open>num_zone_chunks()\<close> and \<open>num_pt_chunks()\<close> are taken as given: arbitrary functions and
  numbers. The static functions of \<open>Hydro\<close> receive these arrays as arguments under the
  names of the members; they read them from the record here.
\<close>

record mesh =
  num_zones :: int
  num_zone_chunks :: int
  num_pt_chunks :: int
  zone_chunks_CRS :: "int \<Rightarrow> int"
  pt_chunks_CRS :: "int \<Rightarrow> int"
  map_side2pt1 :: "int \<Rightarrow> int"
  map_side2zone :: "int \<Rightarrow> int"
  mapSideToPt2 :: "int \<Rightarrow> int"
  mapSideToSidePrev :: "int \<Rightarrow> int"
  pt_x :: "int \<Rightarrow> double2"
  pt_x_pred :: "int \<Rightarrow> double2"
  zone_x :: "int \<Rightarrow> double2"
  zone_vol :: "int \<Rightarrow> double"
  zone_vol0 :: "int \<Rightarrow> double"
  zone_dl :: "int \<Rightarrow> double"
  subregion_xmin :: double
  subregion_xmax :: double
  subregion_ymin :: double
  subregion_ymax :: double

text \<open>
  The members of \<open>Hydro\<close>: the configuration values its constructor copies from the input
  parameters, and the field arrays \<open>init\<close> obtains from the field containers
  (\<open>zone_pressure\<close> is the member \<open>zone_pressure_\<close>).
\<close>

record hydro =
  cfl :: double
  cflv :: double
  rho_init :: double
  energy_init :: double
  rho_init_sub :: double
  energy_init_sub :: double
  vel_init_radial :: double
  pt_vel :: "int \<Rightarrow> double2"
  pt_vel0 :: "int \<Rightarrow> double2"
  pt_accel :: "int \<Rightarrow> double2"
  crnr_weighted_mass :: "int \<Rightarrow> double"
  side_force_pres :: "int \<Rightarrow> double2"
  side_force_visc :: "int \<Rightarrow> double2"
  side_force_tts :: "int \<Rightarrow> double2"
  crnr_force_tot :: "int \<Rightarrow> double2"
  zone_rho :: "int \<Rightarrow> double"
  zone_rho_pred :: "int \<Rightarrow> double"
  zone_energy_density :: "int \<Rightarrow> double"
  zone_pressure :: "int \<Rightarrow> double"
  zone_mass :: "int \<Rightarrow> double"
  zone_energy_tot :: "int \<Rightarrow> double"
  zone_work :: "int \<Rightarrow> double"
  zone_work_rate :: "int \<Rightarrow> double"
  zone_sound_speed :: "int \<Rightarrow> double"
  zone_dvel :: "int \<Rightarrow> double"

section \<open>Initialization\<close>

definition fill :: "int \<Rightarrow> int \<Rightarrow> 'a \<Rightarrow> (int \<Rightarrow> 'a) \<Rightarrow> (int \<Rightarrow> 'a)" where
  \<comment> \<open>\<open>std::fill(&a[i], &a[n], v)\<close>\<close>
  "fill i n v a = for_loop i n (\<lambda>k b. b(k := v)) a"

definition in_subregion :: "mesh \<Rightarrow> int \<Rightarrow> bool" where
  \<comment> \<open>the test of \<open>Hydro::init\<close> on the zone centre \<open>zx[z]\<close>, with \<open>eps = 1.e-12\<close>\<close>
  "in_subregion m z =
     (let eps = 1 / 10 ^ 12
      in d2x (zone_x m z) > (subregion_xmin m - eps) \<and>
         d2x (zone_x m z) < (subregion_xmax m + eps) \<and>
         d2y (zone_x m z) > (subregion_ymin m - eps) \<and>
         d2y (zone_x m z) < (subregion_ymax m + eps))"

definition init_subregion_zone :: "mesh \<Rightarrow> int \<Rightarrow> hydro \<Rightarrow> hydro" where
  "init_subregion_zone m z h =
     (if in_subregion m z
      then h\<lparr>zone_rho := (zone_rho h)(z := rho_init_sub h),
             zone_energy_density := (zone_energy_density h)(z := energy_init_sub h)\<rparr>
      else h)"

definition init_mass_zone :: "mesh \<Rightarrow> int \<Rightarrow> hydro \<Rightarrow> hydro" where
  "init_mass_zone m z h =
     (let h1 = h\<lparr>zone_mass := (zone_mass h)(z := zone_rho h z * zone_vol m z)\<rparr>
      in h1\<lparr>zone_energy_tot := (zone_energy_tot h1)(z := zone_energy_density h1 z * zone_mass h1 z)\<rparr>)"

definition init_zone_chunk :: "mesh \<Rightarrow> int \<Rightarrow> hydro \<Rightarrow> hydro" where
  \<comment> \<open>the body of the loop \<open>for (int zch = 0; zch < numzch; ++zch)\<close>\<close>
  "init_zone_chunk m zch h =
     (let zfirst = zone_chunks_CRS m zch;
          zlast = zone_chunks_CRS m (zch + 1);
          h1 = h\<lparr>zone_rho := fill zfirst zlast (rho_init h) (zone_rho h)\<rparr>;
          h2 = h1\<lparr>zone_energy_density := fill zfirst zlast (energy_init h1) (zone_energy_density h1)\<rparr>;
          h3 = h2\<lparr>zone_work_rate := fill zfirst zlast 0 (zone_work_rate h2)\<rparr>;
          h4 = (if subregion_xmin m \<noteq> double_max
                then for_loop zfirst zlast (init_subregion_zone m) h3
                else h3)
      in for_loop zfirst zlast (init_mass_zone m) h4)"

definition initRadialVel_point :: "mesh \<Rightarrow> double \<Rightarrow> int \<Rightarrow> hydro \<Rightarrow> hydro" where
  "initRadialVel_point m vel p h =
     (let eps = 1 / 10 ^ 12;
          pmag = length_d2 (pt_x m p)
      in if pmag > eps
         then h\<lparr>pt_vel := (pt_vel h)(p := divide_d2 (scale vel (pt_x m p)) pmag)\<rparr>
         else h\<lparr>pt_vel := (pt_vel h)(p := Double2 0 0)\<rparr>)"

definition initRadialVel :: "mesh \<Rightarrow> double \<Rightarrow> int \<Rightarrow> int \<Rightarrow> hydro \<Rightarrow> hydro" where
  "initRadialVel m vel pfirst plast h = for_loop pfirst plast (initRadialVel_point m vel) h"

definition init_pt_chunk :: "mesh \<Rightarrow> int \<Rightarrow> hydro \<Rightarrow> hydro" where
  \<comment> \<open>the body of the loop \<open>for (int pch = 0; pch < numpch; ++pch)\<close>\<close>
  "init_pt_chunk m pch h =
     (let pfirst = pt_chunks_CRS m pch;
          plast = pt_chunks_CRS m (pch + 1)
      in if vel_init_radial h \<noteq> 0
         then initRadialVel m (vel_init_radial h) pfirst plast h
         else h\<lparr>pt_vel := fill pfirst plast (Double2 0 0) (pt_vel h)\<rparr>)"

definition init :: "mesh \<Rightarrow> hydro \<Rightarrow> hydro" where
  \<comment> \<open>\<open>Hydro::init\<close> on the freshly allocated arrays \<open>h\<close>, whose contents are arbitrary\<close>
  "init m h =
     (let h1 = for_loop 0 (num_zone_chunks m) (init_zone_chunk m) h
      in for_loop 0 (num_pt_chunks m) (init_pt_chunk m) h1)"

section \<open>Predictor: net corner force\<close>

definition sumCrnrForce_side :: "mesh \<Rightarrow> int \<Rightarrow> hydro \<Rightarrow> hydro" where
  "sumCrnrForce_side m s h =
     (let s3 = mapSideToSidePrev m s;
          f = (side_force_pres h s + side_force_visc h s + side_force_tts h s) -
              (side_force_pres h s3 + side_force_visc h s3 + side_force_tts h s3)
      in h\<lparr>crnr_force_tot := (crnr_force_tot h)(s := f)\<rparr>)"

definition sumCrnrForce :: "mesh \<Rightarrow> int \<Rightarrow> int \<Rightarrow> hydro \<Rightarrow> hydro" where
  "sumCrnrForce m sfirst slast h = for_loop sfirst slast (sumCrnrForce_side m) h"

section \<open>Corrector primitives\<close>

text \<open>
  \<open>Hydro::calcAccel\<close>. The accessors \<open>pf\<close> and \<open>pmass\<close> are read at the pointer made from
  \<open>generate_mesh->pointLocalToGlobalID(p)\<close>; an accessor is the function its \<open>read\<close>
  computes, and \<open>pointLocalToGlobalID\<close> (GenerateMesh.hh, not among the sources) is a
  parameter. \<open>std::max\<close> on \<open>double\<close> is \<open>max\<close> on \<open>real\<close>.
\<close>

definition calcAccel_point ::
  "(int \<Rightarrow> int) \<Rightarrow> (int \<Rightarrow> double2) \<Rightarrow> (int \<Rightarrow> double) \<Rightarrow> int \<Rightarrow> hydro \<Rightarrow> hydro" where
  "calcAccel_point pointLocalToGlobalID pf pmass p h =
     (let pt_ptr = pointLocalToGlobalID p
      in h\<lparr>pt_accel := (pt_accel h)(p := divide_d2 (pf pt_ptr) (max (pmass pt_ptr) fuzz))\<rparr>)"

definition calcAccel ::
  "(int \<Rightarrow> int) \<Rightarrow> (int \<Rightarrow> double2) \<Rightarrow> (int \<Rightarrow> double) \<Rightarrow> int \<Rightarrow> int \<Rightarrow> hydro \<Rightarrow> hydro" where
  "calcAccel pointLocalToGlobalID pf pmass pfirst plast h =
     for_loop pfirst plast (calcAccel_point pointLocalToGlobalID pf pmass) h"

text \<open>
  \<open>Hydro::calcWork\<close>. \<open>LocalMesh::mapSideToPt2(side, map_side2pt1, map_side2zone,
  zone_pts_ptr)\<close> is the mesh's \<open>mapSideToPt2\<close> at \<open>side\<close>.
  The two updates \<open>zone_energy_tot[z] += dwork\<close> and \<open>zone_work[z] += dwork\<close> are exact sums
  here; in the program each is a binary64 addition that rounds on its own, so nothing is
  stated about how the two accumulated values compare.
\<close>

definition calcWork_dwork :: "double \<Rightarrow> mesh \<Rightarrow> hydro \<Rightarrow> int \<Rightarrow> double" where
  \<comment> \<open>the value of the local \<open>dwork\<close> in the iteration for \<open>side\<close>\<close>
  "calcWork_dwork dt m h side =
     (let dth = 0.5 * dt;
          p1 = map_side2pt1 m side;
          p2 = mapSideToPt2 m side;
          sftot = side_force_pres h side + side_force_visc h side;
          sd1 = dot sftot (pt_vel0 h p1 + pt_vel h p1);
          sd2 = dot (- sftot) (pt_vel0 h p2 + pt_vel h p2)
      in - dth * (sd1 * d2x (pt_x_pred m p1) + sd2 * d2x (pt_x_pred m p2)))"

definition calcWork_side :: "double \<Rightarrow> mesh \<Rightarrow> int \<Rightarrow> hydro \<Rightarrow> hydro" where
  "calcWork_side dt m side h =
     (let z = map_side2zone m side;
          dwork = calcWork_dwork dt m h side;
          h1 = h\<lparr>zone_energy_tot := (zone_energy_tot h)(z := zone_energy_tot h z + dwork)\<rparr>
      in h1\<lparr>zone_work := (zone_work h1)(z := zone_work h1 z + dwork)\<rparr>)"

definition calcWork :: "double \<Rightarrow> mesh \<Rightarrow> int \<Rightarrow> int \<Rightarrow> hydro \<Rightarrow> hydro" where
  "calcWork dt m side_first side_last h = for_loop side_first side_last (calcWork_side dt m) h"

text \<open>
  The increment as the specification words it, for comparison with \<open>calcWork_dwork\<close>:
  the half time step times the difference of the two products, each taken with the average
  \<open>0.5 * (pt_vel0 p + pt_vel p)\<close> of the point's velocities.
\<close>

definition vel_avg :: "hydro \<Rightarrow> int \<Rightarrow> double2" where
  "vel_avg h p = scale 0.5 (pt_vel0 h p + pt_vel h p)"

definition dwork_as_specified :: "double \<Rightarrow> mesh \<Rightarrow> hydro \<Rightarrow> int \<Rightarrow> double" where
  "dwork_as_specified dt m h side =
     - (dt / 2) *
       (dot (side_force_pres h side + side_force_visc h side) (vel_avg h (map_side2pt1 m side))
          * d2x (pt_x_pred m (map_side2pt1 m side))
        - dot (side_force_pres h side + side_force_visc h side) (vel_avg h (mapSideToPt2 m side))
          * d2x (pt_x_pred m (mapSideToPt2 m side)))"

section \<open>Time step selection\<close>

text \<open>
  The diagnostic messages. \<open>show_int\<close> is the decimal rendering \<open>%d\<close> of \<open>snprintf\<close>;
  \<open>snprintf(buf, 80, ...)\<close> stores at most 79 characters, and \<open>strncpy(dst, src, 80)\<close>
  copies at most 80.
\<close>

function show_nat :: "nat \<Rightarrow> string" where
  "show_nat n =
     (if n < 10 then [''0123456789'' ! n]
      else show_nat (n div 10) @ [''0123456789'' ! (n mod 10)])"
  by pat_completeness auto
termination
  by (relation "measure id") auto

declare show_nat.simps [simp del]

definition show_int :: "int \<Rightarrow> string" where
  "show_int i = (if i < 0 then CHR ''-'' # show_nat (nat (- i)) else show_nat (nat i))"

definition snprintf80 :: "string \<Rightarrow> string" where
  "snprintf80 s = take 79 s"

definition strncpy80 :: "string \<Rightarrow> string" where
  "strncpy80 s = take 80 s"

definition courant_msg :: "int \<Rightarrow> string" where
  "courant_msg zmin = snprintf80 (''Hydro Courant limit for z = '' @ show_int zmin)"

definition volume_msg :: "int \<Rightarrow> string" where
  "volume_msg zmax = snprintf80 (''Hydro dV/V limit for z = '' @ show_int zmax)"

text \<open>
  \<open>Hydro::calcDtCourant\<close>. The loop carries the locals \<open>(dtnew, zmin)\<close>, starting from
  \<open>(1.e99, -1)\<close>; the function returns the new contents of \<open>dtrec\<close> and \<open>msgdtrec\<close>.
  The arguments \<open>zone_dvel\<close>, \<open>zone_sound_speed\<close> and \<open>cfl\<close> are read from the solver
  state.
\<close>

definition courant_zdthyd :: "hydro \<Rightarrow> (int \<Rightarrow> double) \<Rightarrow> int \<Rightarrow> double" where
  \<comment> \<open>the local \<open>zdthyd\<close> of the iteration for zone \<open>z\<close>\<close>
  "courant_zdthyd h zdl z =
     (let cdu = max (zone_dvel h z) (max (zone_sound_speed h z) fuzz)
      in zdl z * cfl h / cdu)"

definition calcDtCourant_zone :: "hydro \<Rightarrow> (int \<Rightarrow> double) \<Rightarrow> int \<Rightarrow> double \<times> int \<Rightarrow> double \<times> int" where
  "calcDtCourant_zone h zdl z st =
     (let dtnew = fst st;
          zmin = snd st;
          zdthyd = courant_zdthyd h zdl z;
          zmin' = (if zdthyd < dtnew then z else zmin);
          dtnew' = (if zdthyd < dtnew then zdthyd else dtnew)
      in (dtnew', zmin'))"

definition calcDtCourant_scan :: "hydro \<Rightarrow> (int \<Rightarrow> double) \<Rightarrow> int \<Rightarrow> int \<Rightarrow> double \<times> int" where
  \<comment> \<open>the locals \<open>(dtnew, zmin)\<close> when the loop has ended\<close>
  "calcDtCourant_scan h zdl zfirst zlast =
     for_loop zfirst zlast (calcDtCourant_zone h zdl) (dt_sentinel, - 1)"

definition calcDtCourant ::
  "double \<times> string \<Rightarrow> int \<Rightarrow> int \<Rightarrow> (int \<Rightarrow> double) \<Rightarrow> hydro \<Rightarrow> double \<times> string" where
  "calcDtCourant rec zfirst zlast zdl h =
     (let dtrec = fst rec;
          dtnew = fst (calcDtCourant_scan h zdl zfirst zlast);
          zmin = snd (calcDtCourant_scan h zdl zfirst zlast)
      in if dtnew < dtrec then (dtnew, courant_msg zmin) else rec)"

text \<open>
  \<open>Hydro::calcDtVolume\<close>. The loop carries \<open>(dvovmax, zmax)\<close>, starting from
  \<open>(1.e-99, -1)\<close>. \<open>std::abs\<close> is applied to the quotient.
\<close>

definition volume_zdvov :: "(int \<Rightarrow> double) \<Rightarrow> (int \<Rightarrow> double) \<Rightarrow> int \<Rightarrow> double" where
  \<comment> \<open>the local \<open>zdvov\<close> of the iteration for zone \<open>z\<close>\<close>
  "volume_zdvov zvol zvol0 z = \<bar>(zvol z - zvol0 z) / zvol0 z\<bar>"

definition calcDtVolume_zone :: "(int \<Rightarrow> double) \<Rightarrow> (int \<Rightarrow> double) \<Rightarrow> int \<Rightarrow> double \<times> int \<Rightarrow> double \<times> int" where
  "calcDtVolume_zone zvol zvol0 z st =
     (let dvovmax = fst st;
          zmax = snd st;
          zdvov = volume_zdvov zvol zvol0 z;
          zmax' = (if zdvov > dvovmax then z else zmax);
          dvovmax' = (if zdvov > dvovmax then zdvov else dvovmax)
      in (dvovmax', zmax'))"

definition calcDtVolume_scan :: "(int \<Rightarrow> double) \<Rightarrow> (int \<Rightarrow> double) \<Rightarrow> int \<Rightarrow> int \<Rightarrow> double \<times> int" where
  \<comment> \<open>the locals \<open>(dvovmax, zmax)\<close> when the loop has ended\<close>
  "calcDtVolume_scan zvol zvol0 zfirst zlast =
     for_loop zfirst zlast (calcDtVolume_zone zvol zvol0) (dvov_floor, - 1)"

definition calcDtVolume ::
  "double \<Rightarrow> double \<times> string \<Rightarrow> int \<Rightarrow> int \<Rightarrow> (int \<Rightarrow> double) \<Rightarrow> (int \<Rightarrow> double) \<Rightarrow> hydro \<Rightarrow> double \<times> string" where
  "calcDtVolume dtlast rec zfirst zlast zvol zvol0 h =
     (let dtrec = fst rec;
          dvovmax = fst (calcDtVolume_scan zvol zvol0 zfirst zlast);
          zmax = snd (calcDtVolume_scan zvol zvol0 zfirst zlast);
          dtnew = dtlast * cflv h / dvovmax
      in if dtnew < dtrec then (dtnew, volume_msg zmax) else rec)"

text \<open>
  \<open>Hydro::calcDtHydro\<close>. \<open>TimeStep\<close> (declared outside the sources) has the members \<open>dt\<close>
  and \<open>message\<close>, here \<open>ts_dt\<close> and \<open>ts_message\<close>. The local buffer \<open>char msgdtchunk[80]\<close>
  is not initialised: the argument \<open>msgdtchunk0\<close> is whatever it holds at entry. The
  arguments \<open>zone_dl\<close>, \<open>zone_vol\<close> and \<open>zone_vol0\<close> are read from the mesh.
\<close>

record TimeStep =
  ts_dt :: double
  ts_message :: string

definition calcDtHydro :: "string \<Rightarrow> double \<Rightarrow> int \<Rightarrow> int \<Rightarrow> mesh \<Rightarrow> hydro \<Rightarrow> TimeStep \<Rightarrow> TimeStep" where
  "calcDtHydro msgdtchunk0 dtlast zfirst zlast m h recommend =
     (let chunk0 = (dt_sentinel, msgdtchunk0);
          chunk1 = calcDtCourant chunk0 zfirst zlast (zone_dl m) h;
          chunk2 = calcDtVolume dtlast chunk1 zfirst zlast (zone_vol m) (zone_vol0 m) h;
          dtchunk = fst chunk2;
          msgdtchunk = snd chunk2
      in if dtchunk < ts_dt recommend
         then (if dtchunk < ts_dt recommend
               then recommend\<lparr>ts_dt := dtchunk, ts_message := strncpy80 msgdtchunk\<rparr>
               else recommend)
         else recommend)"

section \<open>Copying the zone results back\<close>

text \<open>
  \<open>Hydro::copyZonesToLegion\<close>. The index space is the list of the pointers its iterator
  yields, in order; an accessor is the function from pointers to the values written. A failed
  \<open>assert\<close> ends the program: it is the error value.
\<close>

datatype error = AssertionFailed

record zone_accessors =
  rho_acc :: "int \<Rightarrow> double"
  energy_density_acc :: "int \<Rightarrow> double"
  pressure_acc :: "int \<Rightarrow> double"

fun copyZones_loop :: "hydro \<Rightarrow> int list \<Rightarrow> int \<Rightarrow> zone_accessors \<Rightarrow> int \<times> zone_accessors" where
  "copyZones_loop h [] z acc = (z, acc)"
| "copyZones_loop h (zone_ptr # zone_itr) z acc =
     copyZones_loop h zone_itr (z + 1)
       (acc\<lparr>rho_acc := (rho_acc acc)(zone_ptr := zone_rho h z),
            energy_density_acc := (energy_density_acc acc)(zone_ptr := zone_energy_density h z),
            pressure_acc := (pressure_acc acc)(zone_ptr := zone_pressure h z)\<rparr>)"

definition copyZonesToLegion :: "mesh \<Rightarrow> hydro \<Rightarrow> zone_accessors \<Rightarrow> int list \<Rightarrow> error + zone_accessors" where
  "copyZonesToLegion m h acc ispace_zones =
     (let z = fst (copyZones_loop h ispace_zones 0 acc);
          acc' = snd (copyZones_loop h ispace_zones 0 acc)
      in if z = num_zones m then Inr acc' else Inl AssertionFailed)"

section \<open>Inputs for the examples\<close>

definition mesh0 :: mesh where
  \<comment> \<open>a mesh whose every number and array element is zero\<close>
  "mesh0 = \<lparr>num_zones = 0, num_zone_chunks = 0, num_pt_chunks = 0,
     zone_chunks_CRS = (\<lambda>_. 0), pt_chunks_CRS = (\<lambda>_. 0),
     map_side2pt1 = (\<lambda>_. 0), map_side2zone = (\<lambda>_. 0), mapSideToPt2 = (\<lambda>_. 0),
     mapSideToSidePrev = (\<lambda>_. 0),
     pt_x = (\<lambda>_. Double2 0 0), pt_x_pred = (\<lambda>_. Double2 0 0), zone_x = (\<lambda>_. Double2 0 0),
     zone_vol = (\<lambda>_. 0), zone_vol0 = (\<lambda>_. 0), zone_dl = (\<lambda>_. 0),
     subregion_xmin = 0, subregion_xmax = 0, subregion_ymin = 0, subregion_ymax = 0\<rparr>"

definition hydro0 :: hydro where
  \<comment> \<open>a solver state whose every number and array element is zero\<close>
  "hydro0 = \<lparr>cfl = 0, cflv = 0, rho_init = 0, energy_init = 0, rho_init_sub = 0,
     energy_init_sub = 0, vel_init_radial = 0,
     pt_vel = (\<lambda>_. Double2 0 0), pt_vel0 = (\<lambda>_. Double2 0 0), pt_accel = (\<lambda>_. Double2 0 0),
     crnr_weighted_mass = (\<lambda>_. 0),
     side_force_pres = (\<lambda>_. Double2 0 0), side_force_visc = (\<lambda>_. Double2 0 0),
     side_force_tts = (\<lambda>_. Double2 0 0), crnr_force_tot = (\<lambda>_. Double2 0 0),
     zone_rho = (\<lambda>_. 0), zone_rho_pred = (\<lambda>_. 0), zone_energy_density = (\<lambda>_. 0),
     zone_pressure = (\<lambda>_. 0), zone_mass = (\<lambda>_. 0), zone_energy_tot = (\<lambda>_. 0),
     zone_work = (\<lambda>_. 0), zone_work_rate = (\<lambda>_. 0), zone_sound_speed = (\<lambda>_. 0),
     zone_dvel = (\<lambda>_. 0)\<rparr>"

definition work_mesh :: mesh where
  \<comment> \<open>one side from point 0 to point 1, both predicted at \<open>(1, 0)\<close>\<close>
  "work_mesh = mesh0\<lparr>mapSideToPt2 := (\<lambda>_. 1), pt_x_pred := (\<lambda>_. Double2 1 0)\<rparr>"

definition work_hydro :: hydro where
  \<comment> \<open>pressure force \<open>(1, 0)\<close>; point 0 moves with \<open>(1, 0)\<close>, the other points rest\<close>
  "work_hydro = hydro0\<lparr>side_force_pres := (\<lambda>_. Double2 1 0),
                        pt_vel := (\<lambda>p. if p = 0 then Double2 1 0 else Double2 0 0),
                        pt_vel0 := (\<lambda>p. if p = 0 then Double2 1 0 else Double2 0 0)\<rparr>"

definition courant_hydro :: hydro where
  \<comment> \<open>sound speed 1 in every zone, no velocity difference, \<open>cfl = cflv = 1/2\<close>\<close>
  "courant_hydro = hydro0\<lparr>cfl := 1 / 2, cflv := 1 / 2, zone_sound_speed := (\<lambda>_. 1)\<rparr>"

definition courant_mesh :: mesh where
  \<comment> \<open>zone 0: length 3, volume unchanged; the other zones: length 1, volume from 2 to 3\<close>
  "courant_mesh = mesh0\<lparr>zone_dl := (\<lambda>z. if z = 0 then 3 else 1),
                         zone_vol := (\<lambda>z. if z = 0 then 2 else 3), zone_vol0 := (\<lambda>_. 2)\<rparr>"

definition sentinel_hydro :: hydro where
  \<comment> \<open>sound speed 1 in every zone, no velocity difference, \<open>cfl = cflv = 1\<close>\<close>
  "sentinel_hydro = hydro0\<lparr>cfl := 1, cflv := 1, zone_sound_speed := (\<lambda>_. 1)\<rparr>"

definition sentinel_mesh :: mesh where
  \<comment> \<open>zones of length \<open>2e99\<close> whose volume does not change\<close>
  "sentinel_mesh = mesh0\<lparr>zone_dl := (\<lambda>_. 2 * 10 ^ 99), zone_vol := (\<lambda>_. 1), zone_vol0 := (\<lambda>_. 1)\<rparr>"

definition init_mesh :: mesh where
  \<comment> \<open>one chunk of two zones and one of two points; the subregion is the unit square\<close>
  "init_mesh = mesh0\<lparr>num_zone_chunks := 1, num_pt_chunks := 1,
     zone_chunks_CRS := (\<lambda>ch. if ch = 0 then 0 else 2),
     pt_chunks_CRS := (\<lambda>ch. if ch = 0 then 0 else 2),
     pt_x := (\<lambda>p. if p = 0 then Double2 3 4 else Double2 0 0),
     zone_x := (\<lambda>z. if z = 0 then Double2 (1 / 2) (1 / 2) else Double2 2 2),
     zone_vol := (\<lambda>_. 3),
     subregion_xmin := 0, subregion_xmax := 1, subregion_ymin := 0, subregion_ymax := 1\<rparr>"

definition init_hydro :: hydro where
  \<comment> \<open>global density 1 and energy 2, subregion density 5 and energy 7, radial speed 10\<close>
  "init_hydro = hydro0\<lparr>rho_init := 1, energy_init := 2, rho_init_sub := 5, energy_init_sub := 7,
     vel_init_radial := 10\<rparr>"

section \<open>Loop invariants of the two scans\<close>

text \<open>
  What the locals of the Courant scan satisfy after the zones \<open>zfirst \<le> z < k\<close>:
  \<open>dtnew\<close> is below the sentinel and below every value seen, and \<open>zmin\<close> is the first zone
  with that value, or \<open>-1\<close> while no value has been below the sentinel.
\<close>

definition courant_scanned :: "hydro \<Rightarrow> (int \<Rightarrow> double) \<Rightarrow> int \<Rightarrow> int \<Rightarrow> double \<times> int \<Rightarrow> bool" where
  "courant_scanned h zdl zfirst k st \<longleftrightarrow>
     fst st \<le> dt_sentinel \<and>
     (\<forall>z. zfirst \<le> z \<and> z < k \<longrightarrow> fst st \<le> courant_zdthyd h zdl z) \<and>
     (if fst st < dt_sentinel
      then zfirst \<le> snd st \<and> snd st < k \<and> courant_zdthyd h zdl (snd st) = fst st \<and>
           (\<forall>z. zfirst \<le> z \<and> z < snd st \<longrightarrow> fst st < courant_zdthyd h zdl z)
      else snd st = - 1)"

text \<open>The same for the volume scan, with the maximum and the floor \<open>1.e-99\<close>.\<close>

definition volume_scanned :: "(int \<Rightarrow> double) \<Rightarrow> (int \<Rightarrow> double) \<Rightarrow> int \<Rightarrow> int \<Rightarrow> double \<times> int \<Rightarrow> bool" where
  "volume_scanned zvol zvol0 zfirst k st \<longleftrightarrow>
     dvov_floor \<le> fst st \<and>
     (\<forall>z. zfirst \<le> z \<and> z < k \<longrightarrow> volume_zdvov zvol zvol0 z \<le> fst st) \<and>
     (if dvov_floor < fst st
      then zfirst \<le> snd st \<and> snd st < k \<and> volume_zdvov zvol zvol0 (snd st) = fst st \<and>
           (\<forall>z. zfirst \<le> z \<and> z < snd st \<longrightarrow> volume_zdvov zvol zvol0 z < fst st)
      else snd st = - 1)"

section \<open>The time step limits as the specification words them\<close>

text \<open>
  For comparison with the scans: the Courant limit as the plain minimum over the zones of
  the range, and the largest relative volume change with the absolute value on the
  difference only.
\<close>

definition courant_dtnew_as_specified :: "hydro \<Rightarrow> (int \<Rightarrow> double) \<Rightarrow> int \<Rightarrow> int \<Rightarrow> double" where
  "courant_dtnew_as_specified h zdl zfirst zlast =
     Min ((\<lambda>z. zdl z * cfl h / max (zone_dvel h z) (max (zone_sound_speed h z) fuzz)) ` {zfirst..<zlast})"

definition dvovmax_as_specified :: "(int \<Rightarrow> double) \<Rightarrow> (int \<Rightarrow> double) \<Rightarrow> int \<Rightarrow> int \<Rightarrow> double" where
  "dvovmax_as_specified zvol zvol0 zfirst zlast =
     Max (insert (1 / 10 ^ 99) ((\<lambda>z. \<bar>zvol z - zvol0 z\<bar> / zvol0 z) ` {zfirst..<zlast}))"

section \<open>Invariants of the initialization loops\<close>

text \<open>
  The values the loops of \<open>Hydro::init\<close> have stored for a zone and for a point once the
  chunk holding it has been processed, and the invariants of the two loops over the chunks.
  A zone or point belongs to chunk \<open>ch\<close> when its index lies between the entries \<open>ch\<close> and
  \<open>ch + 1\<close> of the chunk table.
\<close>

definition zone_rho_init :: "mesh \<Rightarrow> hydro \<Rightarrow> int \<Rightarrow> double" where
  "zone_rho_init m h z =
     (if subregion_xmin m \<noteq> double_max \<and> in_subregion m z then rho_init_sub h else rho_init h)"

definition zone_energy_init :: "mesh \<Rightarrow> hydro \<Rightarrow> int \<Rightarrow> double" where
  "zone_energy_init m h z =
     (if subregion_xmin m \<noteq> double_max \<and> in_subregion m z then energy_init_sub h else energy_init h)"

definition pt_vel_init :: "mesh \<Rightarrow> hydro \<Rightarrow> int \<Rightarrow> double2" where
  "pt_vel_init m h p =
     (if vel_init_radial h \<noteq> 0 \<and> length_d2 (pt_x m p) > 1 / 10 ^ 12
      then divide_d2 (scale (vel_init_radial h) (pt_x m p)) (length_d2 (pt_x m p))
      else Double2 0 0)"

definition in_chunk :: "(int \<Rightarrow> int) \<Rightarrow> int \<Rightarrow> int \<Rightarrow> bool" where
  "in_chunk crs ch z \<longleftrightarrow> crs ch \<le> z \<and> z < crs (ch + 1)"

definition config_kept :: "hydro \<Rightarrow> hydro \<Rightarrow> bool" where
  "config_kept h0 h \<longleftrightarrow>
     rho_init h = rho_init h0 \<and> energy_init h = energy_init h0 \<and>
     rho_init_sub h = rho_init_sub h0 \<and> energy_init_sub h = energy_init_sub h0 \<and>
     vel_init_radial h = vel_init_radial h0"

definition zone_initialised :: "mesh \<Rightarrow> hydro \<Rightarrow> hydro \<Rightarrow> int \<Rightarrow> bool" where
  "zone_initialised m h0 h z \<longleftrightarrow>
     zone_rho h z = zone_rho_init m h0 z \<and>
     zone_energy_density h z = zone_energy_init m h0 z \<and>
     zone_work_rate h z = 0 \<and>
     zone_mass h z = zone_rho_init m h0 z * zone_vol m z \<and>
     zone_energy_tot h z = zone_energy_init m h0 z * (zone_rho_init m h0 z * zone_vol m z)"

definition zone_chunks_done :: "mesh \<Rightarrow> hydro \<Rightarrow> int \<Rightarrow> hydro \<Rightarrow> bool" where
  "zone_chunks_done m h0 k h \<longleftrightarrow>
     config_kept h0 h \<and>
     (\<forall>z ch. 0 \<le> ch \<and> ch < k \<and> in_chunk (zone_chunks_CRS m) ch z \<longrightarrow> zone_initialised m h0 h z)"

definition pt_chunks_done :: "mesh \<Rightarrow> hydro \<Rightarrow> int \<Rightarrow> hydro \<Rightarrow> bool" where
  "pt_chunks_done m h1 k h \<longleftrightarrow>
     config_kept h1 h \<and>
     zone_rho h = zone_rho h1 \<and> zone_energy_density h = zone_energy_density h1 \<and>
     zone_work_rate h = zone_work_rate h1 \<and> zone_mass h = zone_mass h1 \<and>
     zone_energy_tot h = zone_energy_tot h1 \<and>
     (\<forall>p ch. 0 \<le> ch \<and> ch < k \<and> in_chunk (pt_chunks_CRS m) ch p \<longrightarrow> pt_vel h p = pt_vel_init m h1 p)"

section \<open>Facts about the counting loop\<close>

lemma for_loop_step: "i < n \<Longrightarrow> for_loop i n body s = for_loop (i + 1) n body (body i s)"
  by (subst for_loop.simps) simp

lemma for_loop_done: "\<not> i < n \<Longrightarrow> for_loop i n body s = s"
  by (subst for_loop.simps) simp

text \<open>An invariant that holds at the start and is kept by every iteration holds at the end.\<close>

lemma for_loop_invariant:
  assumes "I i s"
    and "\<And>k t. i \<le> k \<Longrightarrow> k < n \<Longrightarrow> I k t \<Longrightarrow> I (k + 1) (body k t)"
    and "i \<le> n"
  shows "I n (for_loop i n body s)"
  using assms
proof (induction i n body s rule: for_loop.induct)
  case (1 i n body s)
  show ?case
  proof (cases "i < n")
    case True
    have "I n (for_loop (i + 1) n body (body i s))"
    proof (rule "1.IH" [OF True])
      show "I (i + 1) (body i s)" using "1.prems" True by simp
      show "\<And>k t. i + 1 \<le> k \<Longrightarrow> k < n \<Longrightarrow> I k t \<Longrightarrow> I (k + 1) (body k t)"
        using "1.prems"(2) by simp
      show "i + 1 \<le> n" using True by simp
    qed
    then show ?thesis using True by (simp add: for_loop_step)
  next
    case False
    then have "i = n" using "1.prems"(3) by simp
    then show ?thesis using "1.prems"(1) by (simp add: for_loop_done)
  qed
qed

text \<open>A loop whose iteration \<open>k\<close> stores a value computed from \<open>k\<close> alone in slot \<open>k\<close>.\<close>

lemma for_loop_store:
  "for_loop i n (\<lambda>k a. a(k := f k)) a = (\<lambda>k. if i \<le> k \<and> k < n then f k else a k)"
proof (cases "i \<le> n")
  case True
  have "for_loop i n (\<lambda>k a. a(k := f k)) a = (\<lambda>k. if i \<le> k \<and> k < n then f k else a k)"
    by (rule for_loop_invariant
        [where I = "\<lambda>m t. t = (\<lambda>k. if i \<le> k \<and> k < m then f k else a k)"])
      (use True in \<open>auto simp: fun_eq_iff\<close>)
  then show ?thesis .
next
  case False
  then show ?thesis by (auto simp: for_loop_done fun_eq_iff)
qed


lemma for_loop_invariant_any:
  assumes "I i s"
    and "\<And>k t. i \<le> k \<Longrightarrow> k < n \<Longrightarrow> I k t \<Longrightarrow> I (k + 1) (body k t)"
  shows "I (max i n) (for_loop i n body s)"
proof (cases "i \<le> n")
  case True
  then show ?thesis using for_loop_invariant [of I i s n body] assms by (simp add: max_def)
next
  case False
  then show ?thesis using assms(1) by (simp add: for_loop_done max_def)
qed

section \<open>Facts about index ranges\<close>

lemma sides_upto_Suc:
  "i \<le> k \<Longrightarrow> {s. i \<le> s \<and> s \<le> k \<and> P s} = (if P k then insert k {s. i \<le> s \<and> s < k \<and> P s} else {s. i \<le> s \<and> s < k \<and> P s})"
  for i k :: int
  by (auto simp: order_le_less)

lemma range_max:
  "(i \<le> s \<and> s < max i n) \<longleftrightarrow> (i \<le> s \<and> s < n)"
  "(i \<le> s \<and> s < max i n \<and> P) \<longleftrightarrow> (i \<le> s \<and> s < n \<and> P)"
  for i n s :: int
  by (auto simp: max_def)

lemma sides_empty: "n \<le> i \<Longrightarrow> {s. i \<le> s \<and> s < n \<and> P s} = {}" for i n :: int
  by auto

lemma finite_sides: "finite {s. i \<le> s \<and> s < k \<and> P s}" for i k :: int
  by (rule finite_subset [of _ "{i..<k}"]) auto

section \<open>Facts about the predictor and the corrector primitives\<close>

lemma sumCrnrForce_closed:
  "sumCrnrForce m sfirst slast h =
     h\<lparr>crnr_force_tot := (\<lambda>s. if sfirst \<le> s \<and> s < slast
        then (side_force_pres h s + side_force_visc h s + side_force_tts h s) -
           (side_force_pres h (mapSideToSidePrev m s) + side_force_visc h (mapSideToSidePrev m s) +
            side_force_tts h (mapSideToSidePrev m s))
        else crnr_force_tot h s)\<rparr>"
proof -
  let ?f = "\<lambda>s. (side_force_pres h s + side_force_visc h s + side_force_tts h s) -
           (side_force_pres h (mapSideToSidePrev m s) + side_force_visc h (mapSideToSidePrev m s) +
            side_force_tts h (mapSideToSidePrev m s))"
  let ?I = "\<lambda>k t. t = h\<lparr>crnr_force_tot := (\<lambda>s. if sfirst \<le> s \<and> s < k then ?f s else crnr_force_tot h s)\<rparr>"
  have "?I (max sfirst slast) (for_loop sfirst slast (sumCrnrForce_side m) h)"
  proof (rule for_loop_invariant_any [where I = ?I])
    show "?I sfirst h"
      by (intro hydro.equality) (auto simp: fun_eq_iff)
    show "?I (k + 1) (sumCrnrForce_side m k t)" if "sfirst \<le> k" "k < slast" "?I k t" for k t
      using that(1) unfolding that(3) sumCrnrForce_side_def Let_def
      by (intro hydro.equality) (auto simp: fun_eq_iff)
  qed
  then show ?thesis by (simp add: sumCrnrForce_def range_max)
qed

lemma calcAccel_closed:
  "calcAccel pointLocalToGlobalID pf pmass pfirst plast h =
     h\<lparr>pt_accel := (\<lambda>p. if pfirst \<le> p \<and> p < plast
        then divide_d2 (pf (pointLocalToGlobalID p)) (max (pmass (pointLocalToGlobalID p)) fuzz)
        else pt_accel h p)\<rparr>"
proof -
  let ?f = "\<lambda>p. divide_d2 (pf (pointLocalToGlobalID p)) (max (pmass (pointLocalToGlobalID p)) fuzz)"
  let ?I = "\<lambda>k t. t = h\<lparr>pt_accel := (\<lambda>p. if pfirst \<le> p \<and> p < k then ?f p else pt_accel h p)\<rparr>"
  have "?I (max pfirst plast) (for_loop pfirst plast (calcAccel_point pointLocalToGlobalID pf pmass) h)"
  proof (rule for_loop_invariant_any [where I = ?I])
    show "?I pfirst h"
      by (intro hydro.equality) (auto simp: fun_eq_iff)
    show "?I (k + 1) (calcAccel_point pointLocalToGlobalID pf pmass k t)"
      if "pfirst \<le> k" "k < plast" "?I k t" for k t
      using that(1) unfolding that(3) calcAccel_point_def Let_def
      by (intro hydro.equality) (auto simp: fun_eq_iff)
  qed
  then show ?thesis by (simp add: calcAccel_def range_max)
qed

text \<open>What the loop of \<open>calcWork\<close> has added to each zone: the increments of its sides.\<close>

lemma calcWork_dwork_frame:
  "calcWork_dwork dt m (h\<lparr>zone_energy_tot := e, zone_work := w\<rparr>) s = calcWork_dwork dt m h s"
  by (simp add: calcWork_dwork_def)

lemma calcWork_sums:
  "calcWork dt m side_first side_last h =
     h\<lparr>zone_energy_tot := (\<lambda>z. zone_energy_tot h z + (\<Sum>s | side_first \<le> s \<and> s < side_last \<and> map_side2zone m s = z. calcWork_dwork dt m h s)),
       zone_work := (\<lambda>z. zone_work h z + (\<Sum>s | side_first \<le> s \<and> s < side_last \<and> map_side2zone m s = z. calcWork_dwork dt m h s))\<rparr>"
proof -
  let ?added = "\<lambda>k z. (\<Sum>s | side_first \<le> s \<and> s < k \<and> map_side2zone m s = z. calcWork_dwork dt m h s)"
  let ?I = "\<lambda>k t. t = h\<lparr>zone_energy_tot := (\<lambda>z. zone_energy_tot h z + ?added k z),
                        zone_work := (\<lambda>z. zone_work h z + ?added k z)\<rparr>"
  have start: "?I side_first h"
    by (intro hydro.equality) (simp_all add: fun_eq_iff sides_empty)
  have step: "?I (k + 1) (calcWork_side dt m k t)" if "side_first \<le> k" "k < side_last" "?I k t" for k t
  proof -
    have add: "(\<Sum>s | side_first \<le> s \<and> s \<le> k \<and> map_side2zone m s = z. calcWork_dwork dt m h s)
        = (if map_side2zone m k = z then calcWork_dwork dt m h k else 0) + ?added k z" for z
      by (subst sides_upto_Suc [OF that(1)]) (simp add: finite_sides)
    show ?thesis
      unfolding that(3) calcWork_side_def Let_def calcWork_dwork_frame
      by (intro hydro.equality) (simp_all add: fun_eq_iff add)
  qed
  have "?I (max side_first side_last) (for_loop side_first side_last (calcWork_side dt m) h)"
    by (rule for_loop_invariant_any [where I = ?I, OF start step])
  then show ?thesis
    by (simp add: calcWork_def range_max)
qed

lemma dot_uminus_left: "dot (- a) b = - dot a b"
  by (simp add: dot_def uminus_double2_def)

lemma dot_scale_right: "dot a (scale r v) = r * dot a v"
  by (simp add: dot_def scale_def algebra_simps)

lemma calcWork_dwork_avg:
  "calcWork_dwork dt m h side =
     - dt * (dot (side_force_pres h side + side_force_visc h side) (vel_avg h (map_side2pt1 m side))
               * d2x (pt_x_pred m (map_side2pt1 m side))
             - dot (side_force_pres h side + side_force_visc h side) (vel_avg h (mapSideToPt2 m side))
               * d2x (pt_x_pred m (mapSideToPt2 m side)))"
  unfolding calcWork_dwork_def vel_avg_def Let_def dot_uminus_left dot_scale_right
  by (simp add: algebra_simps)

section \<open>Facts about the time step selection\<close>

lemma courant_scanned_start: "courant_scanned h zdl zfirst zfirst (dt_sentinel, - 1)"
  by (simp add: courant_scanned_def)

lemma courant_scanned_step:
  assumes "zfirst \<le> k" and "courant_scanned h zdl zfirst k st"
  shows "courant_scanned h zdl zfirst (k + 1) (calcDtCourant_zone h zdl k st)"
proof (cases "courant_zdthyd h zdl k < fst st")
  case True
  have below: "courant_zdthyd h zdl k < courant_zdthyd h zdl z" if "zfirst \<le> z" "z < k" for z
    using assms(2) True that by (fastforce simp: courant_scanned_def)
  have "courant_zdthyd h zdl k < dt_sentinel"
    using assms(2) True by (simp add: courant_scanned_def)
  with True below assms(1) show ?thesis
    by (auto simp: courant_scanned_def calcDtCourant_zone_def Let_def order_le_less)
next
  case False
  with assms show ?thesis
    by (auto simp: courant_scanned_def calcDtCourant_zone_def Let_def order_le_less)
qed

lemma calcDtCourant_scan_scanned:
  "courant_scanned h zdl zfirst (max zfirst zlast) (calcDtCourant_scan h zdl zfirst zlast)"
  unfolding calcDtCourant_scan_def
  by (rule for_loop_invariant_any [where I = "courant_scanned h zdl zfirst"])
    (simp_all add: courant_scanned_start courant_scanned_step)

lemma calcDtCourant_scan_Min:
  "fst (calcDtCourant_scan h zdl zfirst zlast) =
     Min (insert dt_sentinel (courant_zdthyd h zdl ` {zfirst..<zlast}))"
proof -
  let ?st = "calcDtCourant_scan h zdl zfirst zlast"
  have inv: "courant_scanned h zdl zfirst (max zfirst zlast) ?st"
    by (rule calcDtCourant_scan_scanned)
  have "Min (insert dt_sentinel (courant_zdthyd h zdl ` {zfirst..<zlast})) = fst ?st"
  proof (rule Min_eqI)
    show "finite (insert dt_sentinel (courant_zdthyd h zdl ` {zfirst..<zlast}))" by simp
    show "fst ?st \<le> y" if "y \<in> insert dt_sentinel (courant_zdthyd h zdl ` {zfirst..<zlast})" for y
      using inv that by (auto simp: courant_scanned_def max_def)
    show "fst ?st \<in> insert dt_sentinel (courant_zdthyd h zdl ` {zfirst..<zlast})"
    proof (cases "fst ?st < dt_sentinel")
      case True
      then have "zfirst \<le> snd ?st \<and> snd ?st < zlast \<and> courant_zdthyd h zdl (snd ?st) = fst ?st"
        using inv by (auto simp: courant_scanned_def max_def split: if_splits)
      then show ?thesis by (metis atLeastLessThan_iff imageI insertI2)
    next
      case False
      then show ?thesis using inv by (auto simp: courant_scanned_def)
    qed
  qed
  then show ?thesis by simp
qed

lemma volume_scanned_start: "volume_scanned zvol zvol0 zfirst zfirst (dvov_floor, - 1)"
  by (simp add: volume_scanned_def)

lemma volume_scanned_step:
  assumes "zfirst \<le> k" and "volume_scanned zvol zvol0 zfirst k st"
  shows "volume_scanned zvol zvol0 zfirst (k + 1) (calcDtVolume_zone zvol zvol0 k st)"
proof (cases "volume_zdvov zvol zvol0 k > fst st")
  case True
  have above: "volume_zdvov zvol zvol0 z < volume_zdvov zvol zvol0 k" if "zfirst \<le> z" "z < k" for z
    using assms(2) True that by (fastforce simp: volume_scanned_def)
  have "dvov_floor < volume_zdvov zvol zvol0 k"
    using assms(2) True by (simp add: volume_scanned_def)
  with True above assms(1) show ?thesis
    by (auto simp: volume_scanned_def calcDtVolume_zone_def Let_def order_le_less)
next
  case False
  with assms show ?thesis
    by (auto simp: volume_scanned_def calcDtVolume_zone_def Let_def order_le_less)
qed

lemma calcDtVolume_scan_scanned:
  "volume_scanned zvol zvol0 zfirst (max zfirst zlast) (calcDtVolume_scan zvol zvol0 zfirst zlast)"
  unfolding calcDtVolume_scan_def
  by (rule for_loop_invariant_any [where I = "volume_scanned zvol zvol0 zfirst"])
    (simp_all add: volume_scanned_start volume_scanned_step)

lemma calcDtVolume_scan_Max:
  "fst (calcDtVolume_scan zvol zvol0 zfirst zlast) =
     Max (insert (dvov_floor) (volume_zdvov zvol zvol0 ` {zfirst..<zlast}))"
proof -
  let ?st = "calcDtVolume_scan zvol zvol0 zfirst zlast"
  have inv: "volume_scanned zvol zvol0 zfirst (max zfirst zlast) ?st"
    by (rule calcDtVolume_scan_scanned)
  have "Max (insert (dvov_floor) (volume_zdvov zvol zvol0 ` {zfirst..<zlast})) = fst ?st"
  proof (rule Max_eqI)
    show "finite (insert (dvov_floor) (volume_zdvov zvol zvol0 ` {zfirst..<zlast}))" by simp
    show "y \<le> fst ?st" if "y \<in> insert (dvov_floor) (volume_zdvov zvol zvol0 ` {zfirst..<zlast})" for y
      using inv that by (auto simp: volume_scanned_def max_def)
    show "fst ?st \<in> insert (dvov_floor) (volume_zdvov zvol zvol0 ` {zfirst..<zlast})"
    proof (cases "dvov_floor < fst ?st")
      case True
      then have "zfirst \<le> snd ?st \<and> snd ?st < zlast \<and> volume_zdvov zvol zvol0 (snd ?st) = fst ?st"
        using inv by (auto simp: volume_scanned_def max_def split: if_splits)
      then show ?thesis by (metis atLeastLessThan_iff imageI insertI2)
    next
      case False
      then show ?thesis using inv by (auto simp: volume_scanned_def)
    qed
  qed
  then show ?thesis by simp
qed

lemma calcDtVolume_scan_pos: "0 < fst (calcDtVolume_scan zvol zvol0 zfirst zlast)"
proof -
  have "(0::real) < dvov_floor" by (simp add: dvov_floor_def)
  also have "\<dots> \<le> fst (calcDtVolume_scan zvol zvol0 zfirst zlast)"
    using calcDtVolume_scan_scanned [of zvol zvol0 zfirst zlast] by (simp add: volume_scanned_def)
  finally show ?thesis .
qed

lemma calcDtCourant_scan_zmin:
  "if fst (calcDtCourant_scan h zdl zfirst zlast) < dt_sentinel
   then snd (calcDtCourant_scan h zdl zfirst zlast) \<in> {zfirst..<zlast} \<and>
        courant_zdthyd h zdl (snd (calcDtCourant_scan h zdl zfirst zlast)) = fst (calcDtCourant_scan h zdl zfirst zlast) \<and>
        (\<forall>z\<in>{zfirst..<snd (calcDtCourant_scan h zdl zfirst zlast)}.
           fst (calcDtCourant_scan h zdl zfirst zlast) < courant_zdthyd h zdl z)
   else snd (calcDtCourant_scan h zdl zfirst zlast) = - 1"
  using calcDtCourant_scan_scanned [of h zdl zfirst zlast]
  by (auto simp: courant_scanned_def max_def split: if_splits)

lemma calcDtVolume_scan_zmax:
  "if dvov_floor < fst (calcDtVolume_scan zvol zvol0 zfirst zlast)
   then snd (calcDtVolume_scan zvol zvol0 zfirst zlast) \<in> {zfirst..<zlast} \<and>
        volume_zdvov zvol zvol0 (snd (calcDtVolume_scan zvol zvol0 zfirst zlast)) = fst (calcDtVolume_scan zvol zvol0 zfirst zlast) \<and>
        (\<forall>z\<in>{zfirst..<snd (calcDtVolume_scan zvol zvol0 zfirst zlast)}.
           volume_zdvov zvol zvol0 z < fst (calcDtVolume_scan zvol zvol0 zfirst zlast))
   else snd (calcDtVolume_scan zvol zvol0 zfirst zlast) = - 1"
  using calcDtVolume_scan_scanned [of zvol zvol0 zfirst zlast]
  by (auto simp: volume_scanned_def max_def split: if_splits)

lemma strncpy80_snprintf80: "strncpy80 (snprintf80 s) = snprintf80 s"
  by (simp add: strncpy80_def snprintf80_def)

lemma calcDtCourant_scan_le_sentinel: "fst (calcDtCourant_scan h zdl zfirst zlast) \<le> dt_sentinel"
  using calcDtCourant_scan_scanned [of h zdl zfirst zlast] by (simp add: courant_scanned_def)

text \<open>Evaluating the scans and the messages on the examples.\<close>

lemma int_range_0_1: "{0..<1::int} = {0}"
  by auto

lemma courant_msg_examples:
  "courant_msg (- 1) = ''Hydro Courant limit for z = -1''"
  "courant_msg 0 = ''Hydro Courant limit for z = 0''"
  "courant_msg 1 = ''Hydro Courant limit for z = 1''"
  by (simp_all add: courant_msg_def snprintf80_def show_int_def show_nat.simps)

lemma volume_msg_examples:
  "volume_msg (- 1) = ''Hydro dV/V limit for z = -1''"
  "volume_msg 0 = ''Hydro dV/V limit for z = 0''"
  "volume_msg 1 = ''Hydro dV/V limit for z = 1''"
  by (simp_all add: volume_msg_def snprintf80_def show_int_def show_nat.simps)

lemmas scan_eval = for_loop_step for_loop_done calcDtCourant_scan_def calcDtCourant_zone_def
  courant_zdthyd_def calcDtVolume_scan_def calcDtVolume_zone_def volume_zdvov_def Let_def
  fuzz_def dt_sentinel_def dvov_floor_def hydro0_def mesh0_def

text \<open>
  What \<open>calcDtHydro\<close> does by design, for zones with nonzero previous volume (the quotient of
  \<open>calcDtVolume\<close> is a division by zero otherwise). Let \<open>courant\<close> be the \<open>dtnew\<close> of
  \<open>calcDtCourant\<close> on the chunk (never above the sentinel \<open>1e99\<close>) and \<open>volume\<close> the \<open>dtnew\<close>
  of \<open>calcDtVolume\<close>. Afterwards \<open>recommend.dt\<close> is the minimum of its value before the call,
  \<open>courant\<close> and \<open>volume\<close>; \<open>recommend\<close> is changed only when \<open>min courant volume\<close> is
  strictly smaller than \<open>recommend.dt\<close>; and then, if that chunk value is below the sentinel,
  the message is the volume message for \<open>zmax\<close> when \<open>volume < courant\<close> and the Courant
  message for \<open>zmin\<close> otherwise.
\<close>

lemma calcDtHydro_limits:
  assumes "\<forall>z\<in>{zfirst..<zlast}. zone_vol0 m z \<noteq> 0"
  shows
  "(let courant = fst (calcDtCourant_scan h (zone_dl m) zfirst zlast);
        zmin = snd (calcDtCourant_scan h (zone_dl m) zfirst zlast);
        volume = dtlast * cflv h / fst (calcDtVolume_scan (zone_vol m) (zone_vol0 m) zfirst zlast);
        zmax = snd (calcDtVolume_scan (zone_vol m) (zone_vol0 m) zfirst zlast);
        dtchunk = min courant volume;
        after = calcDtHydro msgdtchunk0 dtlast zfirst zlast m h recommend
    in ts_dt after = min (ts_dt recommend) (min courant volume)
       \<and> dtchunk \<le> dt_sentinel
       \<and> (if dtchunk < ts_dt recommend
           then ts_dt after = dtchunk \<and>
                (dtchunk < dt_sentinel \<longrightarrow>
                   ts_message after = (if volume < courant then volume_msg zmax else courant_msg zmin))
           else after = recommend))"
  using calcDtCourant_scan_le_sentinel [of h "zone_dl m" zfirst zlast]
  by (auto simp: calcDtHydro_def calcDtCourant_def calcDtVolume_def Let_def
      strncpy80_snprintf80 courant_msg_def volume_msg_def min_def)

text \<open>
  On two zones with \<open>dtlast = 2\<close> and \<open>recommend.dt = 1\<close>: the Courant limit \<open>1/2\<close> at zone 1
  is below the volume limit \<open>2\<close> and replaces \<open>recommend.dt\<close>, with its message.
\<close>

lemma calcDtHydro_limits_example:
  "calcDtHydro ''stale bytes'' 2 0 2 courant_mesh courant_hydro
      \<lparr>ts_dt = 1, ts_message = ''Hydro default''\<rparr>
     = \<lparr>ts_dt = 1 / 2, ts_message = ''Hydro Courant limit for z = 1''\<rparr>
   \<and> fst (calcDtCourant_scan courant_hydro (zone_dl courant_mesh) 0 2) = 1 / 2
   \<and> 2 * cflv courant_hydro / fst (calcDtVolume_scan (zone_vol courant_mesh) (zone_vol0 courant_mesh) 0 2) = 2
   \<and> (1 / 2 :: double) < dt_sentinel"
proof -
  have courant: "calcDtCourant_scan courant_hydro (zone_dl courant_mesh) 0 2 = (1 / 2, 1)"
    by (simp add: scan_eval courant_hydro_def courant_mesh_def)
  have volume: "calcDtVolume_scan (zone_vol courant_mesh) (zone_vol0 courant_mesh) 0 2 = (1 / 2, 1)"
    by (simp add: scan_eval courant_mesh_def)
  have cflv: "cflv courant_hydro = 1 / 2"
    by (simp add: courant_hydro_def)
  have sentinel: "(1 / 2 :: double) < dt_sentinel"
    by (simp add: dt_sentinel_def)
  have nonzero: "\<forall>z\<in>{0..<2}. zone_vol0 courant_mesh z \<noteq> 0"
    by (simp add: courant_mesh_def mesh0_def)
  show ?thesis
    using calcDtHydro_limits [OF nonzero, of courant_hydro 2 "''stale bytes''"
        "\<lparr>ts_dt = 1, ts_message = ''Hydro default''\<rparr>"] sentinel
    by (simp add: Let_def courant volume cflv courant_msg_examples TimeStep.equality)
qed

section \<open>Facts about copying the zone results back\<close>

lemma copyZones_loop_count:
  "fst (copyZones_loop h zone_itr z acc) = z + int (length zone_itr)"
  by (induction zone_itr arbitrary: z acc) simp_all

lemma copyZones_loop_other:
  "p \<notin> set zone_itr \<Longrightarrow>
     rho_acc (snd (copyZones_loop h zone_itr z acc)) p = rho_acc acc p \<and>
     energy_density_acc (snd (copyZones_loop h zone_itr z acc)) p = energy_density_acc acc p \<and>
     pressure_acc (snd (copyZones_loop h zone_itr z acc)) p = pressure_acc acc p"
  by (induction zone_itr arbitrary: z acc) simp_all

lemma copyZones_loop_written:
  "distinct zone_itr \<Longrightarrow> k < length zone_itr \<Longrightarrow>
     rho_acc (snd (copyZones_loop h zone_itr z acc)) (zone_itr ! k) = zone_rho h (z + int k) \<and>
     energy_density_acc (snd (copyZones_loop h zone_itr z acc)) (zone_itr ! k) = zone_energy_density h (z + int k) \<and>
     pressure_acc (snd (copyZones_loop h zone_itr z acc)) (zone_itr ! k) = zone_pressure h (z + int k)"
proof (induction zone_itr arbitrary: z acc k)
  case Nil
  then show ?case by simp
next
  case (Cons zone_ptr zone_itr)
  show ?case
  proof (cases k)
    case 0
    with Cons.prems show ?thesis by (simp add: copyZones_loop_other)
  next
    case (Suc j)
    with Cons.prems have "j < length zone_itr" "distinct zone_itr" by simp_all
    from Cons.IH [OF this(2) this(1), of "z + 1"] Suc show ?thesis
      by (simp add: algebra_simps)
  qed
qed

section \<open>Facts about the initialization\<close>

lemma fill_closed: "fill i n v a = (\<lambda>k. if i \<le> k \<and> k < n then v else a k)"
  by (simp add: fill_def for_loop_store)

lemma init_subregion_loop_closed:
  "for_loop zfirst zlast (init_subregion_zone m) h =
     h\<lparr>zone_rho := (\<lambda>z. if zfirst \<le> z \<and> z < zlast \<and> in_subregion m z then rho_init_sub h else zone_rho h z),
       zone_energy_density := (\<lambda>z. if zfirst \<le> z \<and> z < zlast \<and> in_subregion m z
                                   then energy_init_sub h else zone_energy_density h z)\<rparr>"
proof -
  let ?I = "\<lambda>k t. t = h\<lparr>zone_rho := (\<lambda>z. if zfirst \<le> z \<and> z < k \<and> in_subregion m z then rho_init_sub h else zone_rho h z),
       zone_energy_density := (\<lambda>z. if zfirst \<le> z \<and> z < k \<and> in_subregion m z
                                   then energy_init_sub h else zone_energy_density h z)\<rparr>"
  have "?I (max zfirst zlast) (for_loop zfirst zlast (init_subregion_zone m) h)"
  proof (rule for_loop_invariant_any [where I = ?I])
    show "?I zfirst h"
      by (intro hydro.equality) (auto simp: fun_eq_iff)
    show "?I (k + 1) (init_subregion_zone m k t)" if "zfirst \<le> k" "k < zlast" "?I k t" for k t
      using that(1) unfolding that(3) init_subregion_zone_def
      by (intro hydro.equality) (auto simp: fun_eq_iff)
  qed
  then show ?thesis by (simp add: range_max)
qed

lemma init_mass_loop_closed:
  "for_loop zfirst zlast (init_mass_zone m) h =
     h\<lparr>zone_mass := (\<lambda>z. if zfirst \<le> z \<and> z < zlast then zone_rho h z * zone_vol m z else zone_mass h z),
       zone_energy_tot := (\<lambda>z. if zfirst \<le> z \<and> z < zlast
                               then zone_energy_density h z * (zone_rho h z * zone_vol m z)
                               else zone_energy_tot h z)\<rparr>"
proof -
  let ?I = "\<lambda>k t. t = h\<lparr>zone_mass := (\<lambda>z. if zfirst \<le> z \<and> z < k then zone_rho h z * zone_vol m z else zone_mass h z),
       zone_energy_tot := (\<lambda>z. if zfirst \<le> z \<and> z < k
                               then zone_energy_density h z * (zone_rho h z * zone_vol m z)
                               else zone_energy_tot h z)\<rparr>"
  have "?I (max zfirst zlast) (for_loop zfirst zlast (init_mass_zone m) h)"
  proof (rule for_loop_invariant_any [where I = ?I])
    show "?I zfirst h"
      by (intro hydro.equality) (auto simp: fun_eq_iff)
    show "?I (k + 1) (init_mass_zone m k t)" if "zfirst \<le> k" "k < zlast" "?I k t" for k t
      using that(1) unfolding that(3) init_mass_zone_def Let_def
      by (intro hydro.equality) (auto simp: fun_eq_iff)
  qed
  then show ?thesis by (simp add: range_max)
qed

lemma initRadialVel_closed:
  "initRadialVel m vel pfirst plast h =
     h\<lparr>pt_vel := (\<lambda>p. if pfirst \<le> p \<and> p < plast
        then (if length_d2 (pt_x m p) > 1 / 10 ^ 12
              then divide_d2 (scale vel (pt_x m p)) (length_d2 (pt_x m p))
              else Double2 0 0)
        else pt_vel h p)\<rparr>"
proof -
  let ?f = "\<lambda>p. if length_d2 (pt_x m p) > 1 / 10 ^ 12
              then divide_d2 (scale vel (pt_x m p)) (length_d2 (pt_x m p))
              else Double2 0 0"
  let ?I = "\<lambda>k t. t = h\<lparr>pt_vel := (\<lambda>p. if pfirst \<le> p \<and> p < k then ?f p else pt_vel h p)\<rparr>"
  have "?I (max pfirst plast) (for_loop pfirst plast (initRadialVel_point m vel) h)"
  proof (rule for_loop_invariant_any [where I = ?I])
    show "?I pfirst h"
      by (intro hydro.equality) (auto simp: fun_eq_iff)
    show "?I (k + 1) (initRadialVel_point m vel k t)" if "pfirst \<le> k" "k < plast" "?I k t" for k t
      using that(1) unfolding that(3) initRadialVel_point_def Let_def
      by (intro hydro.equality) (auto simp: fun_eq_iff)
  qed
  then show ?thesis by (simp add: initRadialVel_def range_max)
qed

lemma init_zone_chunk_closed:
  "init_zone_chunk m zch h =
     h\<lparr>zone_rho := (\<lambda>z. if in_chunk (zone_chunks_CRS m) zch z then zone_rho_init m h z else zone_rho h z),
       zone_energy_density := (\<lambda>z. if in_chunk (zone_chunks_CRS m) zch z then zone_energy_init m h z
                                   else zone_energy_density h z),
       zone_work_rate := (\<lambda>z. if in_chunk (zone_chunks_CRS m) zch z then 0 else zone_work_rate h z),
       zone_mass := (\<lambda>z. if in_chunk (zone_chunks_CRS m) zch z then zone_rho_init m h z * zone_vol m z
                         else zone_mass h z),
       zone_energy_tot := (\<lambda>z. if in_chunk (zone_chunks_CRS m) zch z
                               then zone_energy_init m h z * (zone_rho_init m h z * zone_vol m z)
                               else zone_energy_tot h z)\<rparr>"
  unfolding init_zone_chunk_def Let_def init_subregion_loop_closed init_mass_loop_closed fill_closed
  by (intro hydro.equality) (auto simp: fun_eq_iff in_chunk_def zone_rho_init_def zone_energy_init_def)

lemma init_pt_chunk_closed:
  "init_pt_chunk m pch h =
     h\<lparr>pt_vel := (\<lambda>p. if in_chunk (pt_chunks_CRS m) pch p then pt_vel_init m h p else pt_vel h p)\<rparr>"
  unfolding init_pt_chunk_def Let_def initRadialVel_closed fill_closed
  by (intro hydro.equality) (auto simp: fun_eq_iff in_chunk_def pt_vel_init_def)

lemma init_values_config:
  "config_kept h0 h \<Longrightarrow> zone_rho_init m h = zone_rho_init m h0"
  "config_kept h0 h \<Longrightarrow> zone_energy_init m h = zone_energy_init m h0"
  "config_kept h0 h \<Longrightarrow> pt_vel_init m h = pt_vel_init m h0"
  by (simp_all add: config_kept_def zone_rho_init_def zone_energy_init_def pt_vel_init_def fun_eq_iff)

lemma zone_chunks_done_step:
  assumes "zone_chunks_done m h0 k h"
  shows "zone_chunks_done m h0 (k + 1) (init_zone_chunk m k h)"
proof -
  have cfg: "config_kept h0 h"
    using assms by (simp add: zone_chunks_done_def)
  have old: "zone_initialised m h0 h z" if "0 \<le> ch" "ch < k" "in_chunk (zone_chunks_CRS m) ch z" for z ch
    using assms that by (auto simp: zone_chunks_done_def)
  have "zone_initialised m h0 (init_zone_chunk m k h) z"
    if "0 \<le> ch" "ch < k + 1" "in_chunk (zone_chunks_CRS m) ch z" for z ch
  proof (cases "in_chunk (zone_chunks_CRS m) k z")
    case True
    then show ?thesis
      by (simp add: init_zone_chunk_closed zone_initialised_def init_values_config [OF cfg])
  next
    case False
    with that have "ch < k" by (cases "ch = k") auto
    from old [OF that(1) this that(3)] False show ?thesis
      by (simp add: init_zone_chunk_closed zone_initialised_def)
  qed
  moreover have "config_kept h0 (init_zone_chunk m k h)"
    using cfg by (simp add: init_zone_chunk_closed config_kept_def)
  ultimately show ?thesis
    by (auto simp: zone_chunks_done_def)
qed

lemma zone_chunks_done_init:
  "zone_chunks_done m h (max 0 (num_zone_chunks m)) (for_loop 0 (num_zone_chunks m) (init_zone_chunk m) h)"
proof (rule for_loop_invariant_any [where I = "zone_chunks_done m h"])
  show "zone_chunks_done m h 0 h"
    by (auto simp: zone_chunks_done_def config_kept_def)
  show "zone_chunks_done m h (k + 1) (init_zone_chunk m k t)" if "zone_chunks_done m h k t" for k t
    using that by (rule zone_chunks_done_step)
qed

lemma pt_chunks_done_step:
  assumes "pt_chunks_done m h1 k h"
  shows "pt_chunks_done m h1 (k + 1) (init_pt_chunk m k h)"
proof -
  have cfg: "config_kept h1 h"
    using assms by (simp add: pt_chunks_done_def)
  have old: "pt_vel h p = pt_vel_init m h1 p" if "0 \<le> ch" "ch < k" "in_chunk (pt_chunks_CRS m) ch p" for p ch
    using assms that by (auto simp: pt_chunks_done_def)
  have "pt_vel (init_pt_chunk m k h) p = pt_vel_init m h1 p"
    if "0 \<le> ch" "ch < k + 1" "in_chunk (pt_chunks_CRS m) ch p" for p ch
  proof (cases "in_chunk (pt_chunks_CRS m) k p")
    case True
    then show ?thesis
      by (simp add: init_pt_chunk_closed init_values_config [OF cfg])
  next
    case False
    with that have "ch < k" by (cases "ch = k") auto
    from old [OF that(1) this that(3)] False show ?thesis
      by (simp add: init_pt_chunk_closed)
  qed
  then have new: "\<forall>p ch. 0 \<le> ch \<and> ch < k + 1 \<and> in_chunk (pt_chunks_CRS m) ch p \<longrightarrow>
      pt_vel (init_pt_chunk m k h) p = pt_vel_init m h1 p"
    by blast
  have kept: "config_kept h1 (init_pt_chunk m k h)"
    using cfg by (simp add: init_pt_chunk_closed config_kept_def)
  have zones: "zone_rho (init_pt_chunk m k h) = zone_rho h1 \<and>
      zone_energy_density (init_pt_chunk m k h) = zone_energy_density h1 \<and>
      zone_work_rate (init_pt_chunk m k h) = zone_work_rate h1 \<and>
      zone_mass (init_pt_chunk m k h) = zone_mass h1 \<and>
      zone_energy_tot (init_pt_chunk m k h) = zone_energy_tot h1"
    using assms by (simp add: pt_chunks_done_def init_pt_chunk_closed)
  show ?thesis
    unfolding pt_chunks_done_def using new kept zones by blast
qed

lemma pt_chunks_done_init:
  "pt_chunks_done m h1 (max 0 (num_pt_chunks m)) (for_loop 0 (num_pt_chunks m) (init_pt_chunk m) h1)"
proof (rule for_loop_invariant_any [where I = "pt_chunks_done m h1"])
  show "pt_chunks_done m h1 0 h1"
    by (auto simp: pt_chunks_done_def config_kept_def)
  show "pt_chunks_done m h1 (k + 1) (init_pt_chunk m k t)" if "pt_chunks_done m h1 k t" for k t
    using that by (rule pt_chunks_done_step)
qed

lemma init_zone_values:
  assumes "0 \<le> zch" "zch < num_zone_chunks m" "in_chunk (zone_chunks_CRS m) zch z"
  shows "zone_initialised m h (init m h) z"
proof -
  let ?h1 = "for_loop 0 (num_zone_chunks m) (init_zone_chunk m) h"
  have "zone_initialised m h ?h1 z"
    using zone_chunks_done_init [of m h] assms by (auto simp: zone_chunks_done_def max_def)
  moreover have "pt_chunks_done m ?h1 (max 0 (num_pt_chunks m)) (init m h)"
    using pt_chunks_done_init [of m ?h1] by (simp add: init_def Let_def)
  ultimately show ?thesis
    by (simp add: zone_initialised_def pt_chunks_done_def)
qed

lemma init_pt_values:
  assumes "0 \<le> pch" "pch < num_pt_chunks m" "in_chunk (pt_chunks_CRS m) pch p"
  shows "pt_vel (init m h) p = pt_vel_init m h p"
proof -
  let ?h1 = "for_loop 0 (num_zone_chunks m) (init_zone_chunk m) h"
  have cfg: "config_kept h ?h1"
    using zone_chunks_done_init [of m h] by (simp add: zone_chunks_done_def)
  have "pt_chunks_done m ?h1 (max 0 (num_pt_chunks m)) (init m h)"
    using pt_chunks_done_init [of m ?h1] by (simp add: init_def Let_def)
  then have "pt_vel (init m h) p = pt_vel_init m ?h1 p"
    using assms by (auto simp: pt_chunks_done_def max_def)
  then show ?thesis
    by (simp add: init_values_config [OF cfg])
qed

lemma radial_norm:
  fixes r a b vel :: real
  assumes "0 < r" and "r * r = a * a + b * b"
  shows "sqrt ((vel * a / r) * (vel * a / r) + (vel * b / r) * (vel * b / r)) = \<bar>vel\<bar>"
proof -
  have "(vel * a / r) * (vel * a / r) + (vel * b / r) * (vel * b / r)
      = ((vel * a) * (vel * a) + (vel * b) * (vel * b)) / (r * r)"
    by (simp add: add_divide_distrib)
  also have "(vel * a) * (vel * a) + (vel * b) * (vel * b) = vel * vel * (r * r)"
    by (simp add: assms(2) algebra_simps)
  also have "vel * vel * (r * r) / (r * r) = vel * vel"
    using assms(1) by simp
  finally show ?thesis by simp
qed

lemma length_d2_radial:
  assumes "0 < length_d2 v"
  shows "length_d2 (divide_d2 (scale vel v) (length_d2 v)) = \<bar>vel\<bar>"
proof -
  define r where "r = length_d2 v"
  have r2: "r * r = d2x v * d2x v + d2y v * d2y v"
    by (simp add: r_def length_d2_def)
  have "length_d2 (divide_d2 (scale vel v) r)
      = sqrt ((vel * d2x v / r) * (vel * d2x v / r) + (vel * d2y v / r) * (vel * d2y v / r))"
    by (simp add: length_d2_def divide_d2_def scale_def)
  also have "\<dots> = \<bar>vel\<bar>"
    using assms r2 by (intro radial_norm) (simp_all add: r_def)
  finally show ?thesis by (simp add: r_def)
qed

lemma sqrt_25: "sqrt 25 = 5"
  by (rule real_sqrt_unique) simp_all

lemma double_max_pos: "0 < double_max"
  by (simp add: double_max_def)

section \<open>Theorems\<close>

text \<open>
  C1 (as the source has it). For every zone \<open>z\<close>, \<open>calcWork\<close> adds to \<open>zone_energy_tot[z]\<close>
  and to \<open>zone_work[z]\<close> the same amounts: for every side \<open>s\<close> of the range whose zone is
  \<open>z\<close>, with the points \<open>p1 = map_side2pt1 s\<close> and \<open>p2 = mapSideToPt2 s\<close>, the amount
  \<open>- dt * (dot F (vel_avg p1) * x_pred(p1).x - dot F (vel_avg p2) * x_pred(p2).x)\<close>, where
  \<open>F\<close> is the pressure force plus the viscosity force of the side (no subzonal force) and
  \<open>vel_avg p = 0.5 * (pt_vel0 p + pt_vel p)\<close>. The factor is the full time step: the half
  step \<open>dth\<close> of the source multiplies the sums of the two velocities, not their averages.
\<close>

theorem calcWork_adds_dwork:
  "zone_energy_tot (calcWork dt m side_first side_last h) z =
     zone_energy_tot h z +
       (\<Sum>s | side_first \<le> s \<and> s < side_last \<and> map_side2zone m s = z.
          - dt * (dot (side_force_pres h s + side_force_visc h s) (vel_avg h (map_side2pt1 m s))
                    * d2x (pt_x_pred m (map_side2pt1 m s))
                  - dot (side_force_pres h s + side_force_visc h s) (vel_avg h (mapSideToPt2 m s))
                    * d2x (pt_x_pred m (mapSideToPt2 m s))))
   \<and> zone_work (calcWork dt m side_first side_last h) z =
     zone_work h z +
       (\<Sum>s | side_first \<le> s \<and> s < side_last \<and> map_side2zone m s = z.
          - dt * (dot (side_force_pres h s + side_force_visc h s) (vel_avg h (map_side2pt1 m s))
                    * d2x (pt_x_pred m (map_side2pt1 m s))
                  - dot (side_force_pres h s + side_force_visc h s) (vel_avg h (mapSideToPt2 m s))
                    * d2x (pt_x_pred m (mapSideToPt2 m s))))"
  by (simp add: calcWork_sums calcWork_dwork_avg)

text \<open>
  C1 as stated fails: with the factor \<open>dt / 2\<close> on the averaged velocities the increment
  would be half of what the source adds. One side, \<open>dt = 2\<close>, pressure force \<open>(1, 0)\<close>,
  velocity \<open>(1, 0)\<close> before and after the step at \<open>p1 = 0\<close>, none at \<open>p2 = 1\<close>, predicted
  positions \<open>(1, 0)\<close>: the source adds \<open>-2\<close> to the zone's work and energy, the stated
  formula gives \<open>-1\<close>.
\<close>

theorem calcWork_adds_dwork_counterexample:
  "zone_work (calcWork 2 work_mesh 0 1 work_hydro) 0 = - 2
   \<and> zone_energy_tot (calcWork 2 work_mesh 0 1 work_hydro) 0 = - 2
   \<and> zone_work work_hydro 0 + dwork_as_specified 2 work_mesh work_hydro 0 = - 1
   \<and> zone_energy_tot work_hydro 0 + dwork_as_specified 2 work_mesh work_hydro 0 = - 1"
  by (simp add: calcWork_def for_loop_step for_loop_done calcWork_side_def calcWork_dwork_def
      dwork_as_specified_def vel_avg_def work_mesh_def work_hydro_def mesh0_def hydro0_def
      Let_def dot_def scale_def plus_double2_def uminus_double2_def)

text \<open>
  C2 (as the source has it). With \<open>zdthyd z = zdl z * cfl / max (zone_dvel z)
  (max (zone_sound_speed z) fuzz)\<close> and \<open>fuzz = 1e-99\<close>, \<open>calcDtCourant\<close> computes \<open>dtnew\<close> as
  the minimum of the sentinel \<open>1e99\<close> and the values \<open>zdthyd z\<close> of the zones
  \<open>zfirst \<le> z < zlast\<close>. When \<open>dtnew\<close> is below the sentinel, \<open>zmin\<close> is the first zone of
  the range with \<open>zdthyd zmin = dtnew\<close>; otherwise \<open>zmin\<close> is \<open>-1\<close>. \<open>dtrec\<close> and the
  message are overwritten, with \<open>dtnew\<close> and the Courant message for \<open>zmin\<close>, exactly when
  \<open>dtnew\<close> is strictly smaller than the incoming \<open>dtrec\<close>, and are left as they were
  otherwise.
\<close>

theorem calcDtCourant_minimum:
  "(let dtnew = fst (calcDtCourant_scan h zdl zfirst zlast);
        zmin = snd (calcDtCourant_scan h zdl zfirst zlast);
        zdthyd = (\<lambda>z. zdl z * cfl h / max (zone_dvel h z) (max (zone_sound_speed h z) fuzz))
    in dtnew = Min (insert dt_sentinel (zdthyd ` {zfirst..<zlast}))
       \<and> (if dtnew < dt_sentinel
           then zmin \<in> {zfirst..<zlast} \<and> zdthyd zmin = dtnew \<and> (\<forall>z\<in>{zfirst..<zmin}. dtnew < zdthyd z)
           else zmin = - 1)
       \<and> calcDtCourant (dtrec, msgdtrec) zfirst zlast zdl h =
           (if dtnew < dtrec then (dtnew, courant_msg zmin) else (dtrec, msgdtrec)))
   \<and> dt_sentinel = 10 ^ 99 \<and> fuzz = 1 / 10 ^ 99"
proof -
  have vals: "(\<lambda>z. zdl z * cfl h / max (zone_dvel h z) (max (zone_sound_speed h z) fuzz)) = courant_zdthyd h zdl"
    by (simp add: fun_eq_iff courant_zdthyd_def)
  have cs_eq: "dt_sentinel = 10 ^ 99 \<and> fuzz = 1 / 10 ^ 99"
    by (simp add: dt_sentinel_def fuzz_def)
  have "calcDtCourant (dtrec, msgdtrec) zfirst zlast zdl h =
      (if fst (calcDtCourant_scan h zdl zfirst zlast) < dtrec
       then (fst (calcDtCourant_scan h zdl zfirst zlast), courant_msg (snd (calcDtCourant_scan h zdl zfirst zlast)))
       else (dtrec, msgdtrec))"
    by (simp add: calcDtCourant_def Let_def)
  with cs_eq show ?thesis
    unfolding Let_def vals
    using calcDtCourant_scan_zmin [of h zdl zfirst zlast] calcDtCourant_scan_Min [of h zdl zfirst zlast]
    by blast
qed

text \<open>
  The theorem at two zones with \<open>zdthyd 0 = 3/2\<close> and \<open>zdthyd 1 = 1/2\<close> and an incoming
  \<open>dtrec = 1\<close>: the minimum is \<open>1/2\<close>, at zone 1, and it replaces \<open>dtrec\<close>.
\<close>

theorem calcDtCourant_minimum_witness:
  "fst (calcDtCourant_scan courant_hydro (\<lambda>z. if z = 0 then 3 else 1) 0 2) = 1 / 2
   \<and> snd (calcDtCourant_scan courant_hydro (\<lambda>z. if z = 0 then 3 else 1) 0 2) = 1
   \<and> Min (insert dt_sentinel ((\<lambda>z. (if z = 0 then 3 else 1) * cfl courant_hydro /
        max (zone_dvel courant_hydro z) (max (zone_sound_speed courant_hydro z) fuzz)) ` {0..<2})) = 1 / 2
   \<and> calcDtCourant (1, ''Hydro default'') 0 2 (\<lambda>z. if z = 0 then 3 else 1) courant_hydro =
       (1 / 2, ''Hydro Courant limit for z = 1'')"
proof -
  have scan: "calcDtCourant_scan courant_hydro (\<lambda>z. if z = 0 then 3 else 1) 0 2 = (1 / 2, 1)"
    by (simp add: scan_eval courant_hydro_def)
  show ?thesis
    using calcDtCourant_minimum [of courant_hydro "\<lambda>z. if z = 0 then 3 else 1" 0 2 1 "''Hydro default''"]
    by (simp add: Let_def scan courant_msg_examples)
qed

text \<open>
  C2 as stated fails when no zone is below the sentinel. One zone with \<open>zdthyd 0 = 2e99\<close>
  and an incoming \<open>dtrec = 3e99\<close>: the minimum over the zones is \<open>2e99\<close>, at zone 0, but the
  source stores \<open>1e99\<close> and a message for zone \<open>-1\<close>.
\<close>

theorem calcDtCourant_minimum_counterexample:
  "calcDtCourant (3 * 10 ^ 99, ''Hydro default'') 0 1 (\<lambda>_. 2 * 10 ^ 99) sentinel_hydro =
     (10 ^ 99, ''Hydro Courant limit for z = -1'')
   \<and> courant_dtnew_as_specified sentinel_hydro (\<lambda>_. 2 * 10 ^ 99) 0 1 = 2 * 10 ^ 99"
  by (simp add: calcDtCourant_def scan_eval sentinel_hydro_def courant_msg_examples
      courant_dtnew_as_specified_def int_range_0_1)

text \<open>
  C3 (as the source has it). For zones \<open>zfirst \<le> z < zlast\<close> with nonzero \<open>zvol0 z\<close> (the
  quotient is a division by zero otherwise), \<open>calcDtVolume\<close> computes \<open>dvovmax\<close> as the
  maximum of the floor \<open>1e-99\<close> and the values \<open>zdvov z = |(zvol z - zvol0 z) / zvol0 z|\<close>,
  the absolute value being taken of the quotient. \<open>dvovmax\<close> is positive. When it is above
  the floor, \<open>zmax\<close> is the first zone of the range with \<open>zdvov zmax = dvovmax\<close>; otherwise
  \<open>zmax\<close> is \<open>-1\<close>. With \<open>dtnew = dtlast * cflv / dvovmax\<close>, \<open>dtrec\<close> and the message are
  overwritten, with \<open>dtnew\<close> and the volume message for \<open>zmax\<close>, exactly when \<open>dtnew\<close> is
  strictly smaller than the incoming \<open>dtrec\<close>.
\<close>

theorem calcDtVolume_maximum:
  assumes "\<forall>z\<in>{zfirst..<zlast}. zvol0 z \<noteq> 0"
  shows
  "(let dvovmax = fst (calcDtVolume_scan zvol zvol0 zfirst zlast);
        zmax = snd (calcDtVolume_scan zvol zvol0 zfirst zlast);
        zdvov = (\<lambda>z. \<bar>(zvol z - zvol0 z) / zvol0 z\<bar>);
        dtnew = dtlast * cflv h / dvovmax
    in dvovmax = Max (insert dvov_floor (zdvov ` {zfirst..<zlast}))
       \<and> 0 < dvovmax
       \<and> (if dvov_floor < dvovmax
           then zmax \<in> {zfirst..<zlast} \<and> zdvov zmax = dvovmax \<and> (\<forall>z\<in>{zfirst..<zmax}. zdvov z < dvovmax)
           else zmax = - 1)
       \<and> calcDtVolume dtlast (dtrec, msgdtrec) zfirst zlast zvol zvol0 h =
           (if dtnew < dtrec then (dtnew, volume_msg zmax) else (dtrec, msgdtrec)))
   \<and> dvov_floor = 1 / 10 ^ 99"
proof -
  have vals: "(\<lambda>z. \<bar>(zvol z - zvol0 z) / zvol0 z\<bar>) = volume_zdvov zvol zvol0"
    by (simp add: fun_eq_iff volume_zdvov_def)
  have floor: "dvov_floor = 1 / 10 ^ 99"
    by (simp add: dvov_floor_def)
  have "calcDtVolume dtlast (dtrec, msgdtrec) zfirst zlast zvol zvol0 h =
      (if dtlast * cflv h / fst (calcDtVolume_scan zvol zvol0 zfirst zlast) < dtrec
       then (dtlast * cflv h / fst (calcDtVolume_scan zvol zvol0 zfirst zlast),
             volume_msg (snd (calcDtVolume_scan zvol zvol0 zfirst zlast)))
       else (dtrec, msgdtrec))"
    by (simp add: calcDtVolume_def Let_def)
  with floor show ?thesis
    unfolding Let_def vals
    using calcDtVolume_scan_zmax [of zvol zvol0 zfirst zlast] calcDtVolume_scan_pos [of zvol zvol0 zfirst zlast]
      calcDtVolume_scan_Max [of zvol zvol0 zfirst zlast]
    by blast
qed

text \<open>
  The theorem at two zones of previous volume 2, the first unchanged and the second grown
  to 3: the maximum is \<open>1/2\<close>, at zone 1; with \<open>dtlast = 1\<close> and \<open>cflv = 1/2\<close> the new
  limit \<open>1\<close> replaces an incoming \<open>dtrec = 2\<close>.
\<close>

theorem calcDtVolume_maximum_witness:
  "(2 :: double) \<noteq> 0
   \<and> fst (calcDtVolume_scan (\<lambda>z. if z = 0 then 2 else 3) (\<lambda>_. 2) 0 2) = 1 / 2
   \<and> snd (calcDtVolume_scan (\<lambda>z. if z = 0 then 2 else 3) (\<lambda>_. 2) 0 2) = 1
   \<and> Max (insert dvov_floor ((\<lambda>z. \<bar>((if z = 0 then 2 else 3) - 2) / 2\<bar>) ` {0..<2::int})) = (1 / 2 :: double)
   \<and> calcDtVolume 1 (2, ''Hydro default'') 0 2 (\<lambda>z. if z = 0 then 2 else 3) (\<lambda>_. 2) courant_hydro =
       (1, ''Hydro dV/V limit for z = 1'')"
proof -
  have nonzero: "\<forall>z\<in>{0..<2::int}. (\<lambda>_. 2 :: double) z \<noteq> 0"
    by simp
  have scan: "calcDtVolume_scan (\<lambda>z. if z = 0 then 2 else 3) (\<lambda>_. 2) 0 2 = (1 / 2, 1)"
    by (simp add: scan_eval)
  show ?thesis
    using calcDtVolume_maximum [OF nonzero, of "\<lambda>z. if z = 0 then 2 else 3" 1 courant_hydro 2 "''Hydro default''"]
    by (simp add: Let_def scan volume_msg_examples courant_hydro_def hydro0_def)
qed

text \<open>
  C3 as stated fails at a negative previous volume. One zone with \<open>zvol0 0 = -1\<close> (nonzero)
  and \<open>zvol 0 = 2\<close>: the source takes \<open>|3 / (-1)| = 3\<close> and replaces an incoming
  \<open>dtrec = 1\<close> by \<open>1/3\<close>; the stated \<open>|3| / (-1) = -3\<close> stays below the floor, and the limit
  \<open>1e99\<close> it gives would leave \<open>dtrec\<close> alone.
\<close>

theorem calcDtVolume_maximum_counterexample:
  "(\<lambda>_. - 1 :: double) (0 :: int) \<noteq> 0
   \<and> calcDtVolume 1 (1, ''Hydro default'') 0 1 (\<lambda>_. 2) (\<lambda>_. - 1) sentinel_hydro =
       (1 / 3, ''Hydro dV/V limit for z = 0'')
   \<and> dvovmax_as_specified (\<lambda>_. 2) (\<lambda>_. - 1) 0 1 = 1 / 10 ^ 99
   \<and> \<not> 1 * cflv sentinel_hydro / dvovmax_as_specified (\<lambda>_. 2) (\<lambda>_. - 1) 0 1 < 1"
  by (simp add: calcDtVolume_def scan_eval sentinel_hydro_def volume_msg_examples
      dvovmax_as_specified_def int_range_0_1)

text \<open>
  C4. The message part fails on the source, by a slip: the local buffer \<open>msgdtchunk\<close> is
  never initialised, and it is copied into \<open>recommend.message\<close> whenever the chunk value is
  the sentinel \<open>1e99\<close> itself and \<open>recommend.dt\<close> is above it. One zone of nonzero, unchanged
  volume with Courant value \<open>2e99\<close> and volume limit \<open>2e99\<close>, and \<open>recommend.dt = 2e99\<close>:
  neither \<open>calcDtCourant\<close> nor \<open>calcDtVolume\<close> writes the buffer, \<open>dtchunk\<close> stays \<open>1e99\<close>,
  \<open>recommend.dt\<close> becomes \<open>1e99\<close> (the minimum, as stated), and the message becomes whatever
  bytes the buffer held; it names neither limit and no zone.
\<close>

theorem calcDtHydro_uninitialised_message:
  "calcDtHydro ''stale bytes'' 2 0 1 sentinel_mesh sentinel_hydro
      \<lparr>ts_dt = 2 * 10 ^ 99, ts_message = ''Hydro default''\<rparr>
     = \<lparr>ts_dt = 10 ^ 99, ts_message = ''stale bytes''\<rparr>
   \<and> calcDtHydro ''other bytes'' 2 0 1 sentinel_mesh sentinel_hydro
      \<lparr>ts_dt = 2 * 10 ^ 99, ts_message = ''Hydro default''\<rparr>
     = \<lparr>ts_dt = 10 ^ 99, ts_message = ''other bytes''\<rparr>
   \<and> zone_vol0 sentinel_mesh 0 = 1
   \<and> fst (calcDtCourant_scan sentinel_hydro (zone_dl sentinel_mesh) 0 1) = 10 ^ 99
   \<and> 2 * cflv sentinel_hydro / fst (calcDtVolume_scan (zone_vol sentinel_mesh) (zone_vol0 sentinel_mesh) 0 1)
       = 2 * 10 ^ 99"
  by (simp add: calcDtHydro_def calcDtCourant_def calcDtVolume_def scan_eval
      sentinel_mesh_def sentinel_hydro_def strncpy80_def)

text \<open>
  C5. After \<open>sumCrnrForce\<close> on the sides \<open>sfirst \<le> s < slast\<close>, the net corner force of
  every such side is the sum of the pressure, viscosity and subzonal side forces at \<open>s\<close>
  minus the same sum at \<open>s3 = mapSideToSidePrev s\<close>; the corners of all other sides are
  left as they were.
\<close>

theorem sumCrnrForce_finite_difference:
  "crnr_force_tot (sumCrnrForce m sfirst slast h) s =
     (if sfirst \<le> s \<and> s < slast
      then (side_force_pres h s + side_force_visc h s + side_force_tts h s) -
           (side_force_pres h (mapSideToSidePrev m s) + side_force_visc h (mapSideToSidePrev m s) +
            side_force_tts h (mapSideToSidePrev m s))
      else crnr_force_tot h s)"
  by (simp add: sumCrnrForce_closed)

text \<open>
  C6. When a subregion is configured (\<open>subregion_xmin\<close> is not the largest double), every
  zone \<open>z\<close> of a zone chunk whose centre \<open>zone_x z\<close> lies in the rectangle widened by
  \<open>eps = 1e-12\<close> on each side (all four comparisons strict) has the density
  \<open>rho_init_sub\<close> and the energy density \<open>energy_init_sub\<close> after \<open>init\<close>, and every other
  zone of a chunk has \<open>rho_init\<close> and \<open>energy_init\<close>; the zone's mass is that density times
  its volume, and its total energy that energy density times the mass.
\<close>

theorem init_subregion_override:
  assumes "subregion_xmin m \<noteq> double_max"
    and "0 \<le> zch" and "zch < num_zone_chunks m"
    and "zone_chunks_CRS m zch \<le> z" and "z < zone_chunks_CRS m (zch + 1)"
  shows
  "(let eps = 1 / 10 ^ 12;
        inside = (d2x (zone_x m z) > subregion_xmin m - eps \<and> d2x (zone_x m z) < subregion_xmax m + eps \<and>
                  d2y (zone_x m z) > subregion_ymin m - eps \<and> d2y (zone_x m z) < subregion_ymax m + eps)
    in zone_rho (init m h) z = (if inside then rho_init_sub h else rho_init h)
       \<and> zone_energy_density (init m h) z = (if inside then energy_init_sub h else energy_init h)
       \<and> zone_mass (init m h) z = zone_rho (init m h) z * zone_vol m z
       \<and> zone_energy_tot (init m h) z = zone_energy_density (init m h) z * zone_mass (init m h) z)"
proof -
  have "in_chunk (zone_chunks_CRS m) zch z"
    using assms(4,5) by (simp add: in_chunk_def)
  from init_zone_values [OF assms(2,3) this, of h] assms(1) show ?thesis
    by (simp add: zone_initialised_def zone_rho_init_def zone_energy_init_def in_subregion_def Let_def)
qed

text \<open>
  The theorem on two zones of volume 3 with the unit square as subregion: the zone centred
  at \<open>(1/2, 1/2)\<close> gets density 5, energy density 7, mass 15 and total energy 105; the zone
  centred at \<open>(2, 2)\<close> keeps density 1 and energy density 2, with mass 3 and total energy 6.
\<close>

theorem init_subregion_override_witness:
  "zone_rho (init init_mesh init_hydro) 0 = 5
   \<and> zone_energy_density (init init_mesh init_hydro) 0 = 7
   \<and> zone_mass (init init_mesh init_hydro) 0 = 15
   \<and> zone_energy_tot (init init_mesh init_hydro) 0 = 105
   \<and> zone_rho (init init_mesh init_hydro) 1 = 1
   \<and> zone_energy_density (init init_mesh init_hydro) 1 = 2
   \<and> zone_mass (init init_mesh init_hydro) 1 = 3
   \<and> zone_energy_tot (init init_mesh init_hydro) 1 = 6"
proof -
  have configured: "subregion_xmin init_mesh \<noteq> double_max"
    using double_max_pos by (simp add: init_mesh_def mesh0_def)
  have chunk: "(0::int) \<le> 0" "0 < num_zone_chunks init_mesh"
    "zone_chunks_CRS init_mesh 0 \<le> 0" "0 < zone_chunks_CRS init_mesh (0 + 1)"
    "zone_chunks_CRS init_mesh 0 \<le> 1" "1 < zone_chunks_CRS init_mesh (0 + 1)"
    by (simp_all add: init_mesh_def mesh0_def)
  show ?thesis
    using init_subregion_override [OF configured chunk(1,2,3,4), of init_hydro]
      init_subregion_override [OF configured chunk(1,2,5,6), of init_hydro]
    by (simp add: Let_def init_mesh_def init_hydro_def mesh0_def hydro0_def)
qed

text \<open>
  C7. After \<open>calcAccel\<close> on the points \<open>pfirst \<le> p < plast\<close>, the acceleration of every
  such point is its force divided by \<open>max (point mass) fuzz\<close>, with \<open>fuzz = 1e-99\<close>; that
  divisor is at least \<open>fuzz\<close> and positive whatever the mass is, zero included (then it
  is \<open>fuzz\<close>), so the quotient is never a division by zero. The other points keep their
  acceleration.
\<close>

theorem calcAccel_guarded_division:
  "pt_accel (calcAccel pointLocalToGlobalID pf pmass pfirst plast h) p =
     (if pfirst \<le> p \<and> p < plast
      then divide_d2 (pf (pointLocalToGlobalID p)) (max (pmass (pointLocalToGlobalID p)) fuzz)
      else pt_accel h p)
   \<and> fuzz = 1 / 10 ^ 99
   \<and> fuzz \<le> max (pmass (pointLocalToGlobalID p)) fuzz
   \<and> 0 < max (pmass (pointLocalToGlobalID p)) fuzz
   \<and> max 0 fuzz = fuzz"
proof -
  have "0 < fuzz" by (simp add: fuzz_def)
  then show ?thesis by (simp add: calcAccel_closed fuzz_def max_def)
qed

text \<open>
  C8. After \<open>init\<close> with \<open>vel_init_radial = v\<close>, for every point \<open>p\<close> of a point chunk with
  \<open>r = length (pt_x p)\<close>: if \<open>v \<noteq> 0\<close> and \<open>r > 1e-12\<close> the velocity is \<open>v * pt_x p / r\<close>,
  of magnitude \<open>|v|\<close>; if \<open>v \<noteq> 0\<close> and \<open>r \<le> 1e-12\<close>, in particular at the origin, the
  velocity is \<open>(0, 0)\<close>; and if \<open>v = 0\<close> the velocity is \<open>(0, 0)\<close>.
\<close>

theorem init_radial_velocity:
  assumes "0 \<le> pch" and "pch < num_pt_chunks m"
    and "pt_chunks_CRS m pch \<le> p" and "p < pt_chunks_CRS m (pch + 1)"
  shows
  "(let v = vel_init_radial h;
        r = length_d2 (pt_x m p)
    in (v \<noteq> 0 \<and> r > 1 / 10 ^ 12 \<longrightarrow>
          pt_vel (init m h) p = divide_d2 (scale v (pt_x m p)) r \<and> length_d2 (pt_vel (init m h) p) = \<bar>v\<bar>)
       \<and> (v \<noteq> 0 \<and> r \<le> 1 / 10 ^ 12 \<longrightarrow> pt_vel (init m h) p = Double2 0 0)
       \<and> (pt_x m p = Double2 0 0 \<longrightarrow> pt_vel (init m h) p = Double2 0 0)
       \<and> (v = 0 \<longrightarrow> pt_vel (init m h) p = Double2 0 0))"
proof -
  have "in_chunk (pt_chunks_CRS m) pch p"
    using assms(3,4) by (simp add: in_chunk_def)
  from init_pt_values [OF assms(1,2) this, of h]
  have vel: "pt_vel (init m h) p = pt_vel_init m h p" .
  have pos: "0 < length_d2 (pt_x m p)" if "length_d2 (pt_x m p) > 1 / 10 ^ 12"
    using that by (rule less_trans [rotated]) simp
  have origin: "length_d2 (Double2 0 0) = 0"
    by (simp add: length_d2_def)
  show ?thesis
    unfolding Let_def vel
    using pos by (auto simp: pt_vel_init_def length_d2_radial origin)
qed

text \<open>
  The theorem with \<open>v = 10\<close> on the point \<open>(3, 4)\<close>, of radius 5, which gets the velocity
  \<open>(6, 8)\<close> of magnitude 10, and on a point at the origin, which rests; with \<open>v = 0\<close> the
  point \<open>(3, 4)\<close> rests too.
\<close>

theorem init_radial_velocity_witness:
  "pt_vel (init init_mesh init_hydro) 0 = Double2 6 8
   \<and> length_d2 (pt_vel (init init_mesh init_hydro) 0) = 10
   \<and> pt_vel (init init_mesh init_hydro) 1 = Double2 0 0
   \<and> pt_vel (init init_mesh (init_hydro\<lparr>vel_init_radial := 0\<rparr>)) 0 = Double2 0 0"
proof -
  have chunk: "(0::int) \<le> 0" "0 < num_pt_chunks init_mesh"
    "pt_chunks_CRS init_mesh 0 \<le> 0" "0 < pt_chunks_CRS init_mesh (0 + 1)"
    "pt_chunks_CRS init_mesh 0 \<le> 1" "1 < pt_chunks_CRS init_mesh (0 + 1)"
    by (simp_all add: init_mesh_def mesh0_def)
  have radius: "length_d2 (Double2 3 4) = 5"
    by (simp add: length_d2_def sqrt_25)
  have v: "vel_init_radial init_hydro = 10"
    by (simp add: init_hydro_def)
  have x0: "pt_x init_mesh 0 = Double2 3 4" and x1: "pt_x init_mesh 1 = Double2 0 0"
    by (simp_all add: init_mesh_def mesh0_def)
  have moving: "pt_vel (init init_mesh init_hydro) 0 = Double2 6 8"
    using init_radial_velocity [OF chunk(1,2,3,4), of init_hydro]
    by (auto simp: Let_def radius v x0 divide_d2_def scale_def)
  have speed: "length_d2 (pt_vel (init init_mesh init_hydro) 0) = 10"
    using init_radial_velocity [OF chunk(1,2,3,4), of init_hydro]
    by (auto simp: Let_def radius v x0)
  have origin: "pt_vel (init init_mesh init_hydro) 1 = Double2 0 0"
    using init_radial_velocity [OF chunk(1,2,5,6), of init_hydro]
    by (simp add: Let_def x1)
  have resting: "pt_vel (init init_mesh (init_hydro\<lparr>vel_init_radial := 0\<rparr>)) 0 = Double2 0 0"
    using init_radial_velocity [OF chunk(1,2,3,4), of "init_hydro\<lparr>vel_init_radial := 0\<rparr>"]
    by (simp add: Let_def)
  show ?thesis
    by (intro conjI moving speed origin resting)
qed

text \<open>
  C9. \<open>copyZonesToLegion\<close> writes, for the \<open>k\<close>-th pointer its iterator yields, the density,
  energy density and pressure of zone \<open>k\<close> (the pointers of an index space are distinct),
  counting the pointers from 0, and then asserts that the count equals \<open>mesh->num_zones\<close>:
  when the index space has exactly \<open>num_zones\<close> elements the call returns with the
  accessors written, and with any other number it ends in the failed assertion.
\<close>

theorem copyZonesToLegion_count_check:
  "(if int (length ispace_zones) = num_zones m
    then copyZonesToLegion m h acc ispace_zones = Inr (snd (copyZones_loop h ispace_zones 0 acc))
    else copyZonesToLegion m h acc ispace_zones = Inl AssertionFailed)
   \<and> (distinct ispace_zones \<longrightarrow>
        (\<forall>k<length ispace_zones.
           rho_acc (snd (copyZones_loop h ispace_zones 0 acc)) (ispace_zones ! k) = zone_rho h (int k) \<and>
           energy_density_acc (snd (copyZones_loop h ispace_zones 0 acc)) (ispace_zones ! k) = zone_energy_density h (int k) \<and>
           pressure_acc (snd (copyZones_loop h ispace_zones 0 acc)) (ispace_zones ! k) = zone_pressure h (int k)))"
  using copyZones_loop_written [of ispace_zones _ h 0 acc]
  by (simp add: copyZonesToLegion_def Let_def copyZones_loop_count)

text \<open>
  The theorem on an index space of the two pointers 7 and 3, with \<open>num_zones = 2\<close> (the
  densities 10 and 20 of the zones 0 and 1 are written at 7 and 3) and with
  \<open>num_zones = 3\<close> (the assertion fails).
\<close>

theorem copyZonesToLegion_count_check_witness:
  "copyZonesToLegion (mesh0\<lparr>num_zones := 2\<rparr>) (hydro0\<lparr>zone_rho := (\<lambda>z. if z = 0 then 10 else 20)\<rparr>)
      \<lparr>rho_acc = (\<lambda>_. 0), energy_density_acc = (\<lambda>_. 0), pressure_acc = (\<lambda>_. 0)\<rparr> [7, 3]
     = Inr \<lparr>rho_acc = (\<lambda>p. if p = 3 then 20 else if p = 7 then 10 else 0),
            energy_density_acc = (\<lambda>_. 0), pressure_acc = (\<lambda>_. 0)\<rparr>
   \<and> copyZonesToLegion (mesh0\<lparr>num_zones := 3\<rparr>) (hydro0\<lparr>zone_rho := (\<lambda>z. if z = 0 then 10 else 20)\<rparr>)
      \<lparr>rho_acc = (\<lambda>_. 0), energy_density_acc = (\<lambda>_. 0), pressure_acc = (\<lambda>_. 0)\<rparr> [7, 3]
     = Inl AssertionFailed"
  using copyZonesToLegion_count_check [of "[7, 3]" "mesh0\<lparr>num_zones := 2\<rparr>"
      "hydro0\<lparr>zone_rho := (\<lambda>z. if z = 0 then 10 else 20)\<rparr>"
      "\<lparr>rho_acc = (\<lambda>_. 0), energy_density_acc = (\<lambda>_. 0), pressure_acc = (\<lambda>_. 0)\<rparr>"]
    copyZonesToLegion_count_check [of "[7, 3]" "mesh0\<lparr>num_zones := 3\<rparr>"
      "hydro0\<lparr>zone_rho := (\<lambda>z. if z = 0 then 10 else 20)\<rparr>"
      "\<lparr>rho_acc = (\<lambda>_. 0), energy_density_acc = (\<lambda>_. 0), pressure_acc = (\<lambda>_. 0)\<rparr>"]
  by (simp add: mesh0_def hydro0_def fun_eq_iff)

end
